theory Spec2Isabelle
  imports Main
begin

section \<open>Errors raised by the parser\<close>

text \<open>
  The exceptions of \<^verbatim>\<open>sqf.exceptions\<close> that \<^verbatim>\<open>parser.py\<close> raises, with
  their message (the coordinates computed by \<^verbatim>\<open>get_coord\<close> are left out), and
  the Python run-time errors a list access can raise.
\<close>

datatype error =
    SQFParenthesisError string
  | SQFParserError string
  | IndexError
  | AssertionError

section \<open>The literal merger: \<^verbatim>\<open>parse_strings_and_comments\<close>\<close>

text \<open>
  The input is the list of raw lexical tokens (Python \<^verbatim>\<open>str\<close>); the output list
  holds raw tokens and the assembled \<^verbatim>\<open>String\<close> and \<^verbatim>\<open>Comment\<close> objects.
\<close>

datatype merged = Raw string | StringLit string | CommentLit string

datatype mode = mode_None | string_single | string_double | comment_line | comment_bulk

definition dquote :: string where
  "dquote = [CHR 0x22]"

definition squote :: string where
  "squote = [CHR 0x27]"

definition newline :: string where
  "newline = [CHR 0x0A]"

definition crlf :: string where
  "crlf = [CHR 0x0D, CHR 0x0A]"

text \<open>
  The \<^verbatim>\<open>for i, token in enumerate(all_tokens)\<close> loop, on the tokens still to
  read. The look-ahead \<^verbatim>\<open>i != len(all_tokens) - 1 and all_tokens[i+1] == '"'\<close> is
  a test on the rest of the list. The loop state is the buffer \<^verbatim>\<open>string\<close>, the
  result \<^verbatim>\<open>tokens\<close>, \<^verbatim>\<open>in_double\<close> and \<^verbatim>\<open>mode\<close>.
\<close>

fun next_is :: "string \<Rightarrow> string list \<Rightarrow> bool" where
  "next_is q [] = False"
| "next_is q (t # ts) = (t = q)"

fun psc_loop ::
  "string list \<Rightarrow> string \<Rightarrow> merged list \<Rightarrow> bool \<Rightarrow> mode
     \<Rightarrow> string \<times> merged list \<times> bool \<times> mode" where
  "psc_loop [] string tokens in_double mode = (string, tokens, in_double, mode)"
| "psc_loop (token # rest) string tokens in_double mode =
     (case mode of
        string_double \<Rightarrow>
          (if token = dquote then
             (if in_double then psc_loop rest (string @ token) tokens False mode
              else if next_is dquote rest then psc_loop rest (string @ token) tokens True mode
              else psc_loop rest (string @ token)
                     (tokens @ [StringLit (string @ token)]) False mode_None)
           else psc_loop rest (string @ token) tokens in_double mode)
      | string_single \<Rightarrow>
          (if token = squote then
             (if in_double then psc_loop rest (string @ token) tokens False mode
              else if next_is squote rest then psc_loop rest (string @ token) tokens True mode
              else psc_loop rest (string @ token)
                     (tokens @ [StringLit (string @ token)]) False mode_None)
           else psc_loop rest (string @ token) tokens in_double mode)
      | comment_bulk \<Rightarrow>
          (if token = ''*/'' then
             psc_loop rest [] (tokens @ [CommentLit (string @ token)]) in_double mode_None
           else psc_loop rest (string @ token) tokens in_double mode)
      | comment_line \<Rightarrow>
          (if token = newline \<or> token = crlf then
             psc_loop rest [] (tokens @ [CommentLit (string @ token)]) in_double mode_None
           else psc_loop rest (string @ token) tokens in_double mode)
      | mode_None \<Rightarrow>
          (if token = dquote then psc_loop rest token tokens in_double string_double
           else if token = squote then psc_loop rest token tokens in_double string_single
           else if token = ''/*'' then psc_loop rest token tokens in_double comment_bulk
           else if token = ''//'' then psc_loop rest token tokens in_double comment_line
           else psc_loop rest string (tokens @ [Raw token]) in_double mode))"

definition parse_strings_and_comments :: "string list \<Rightarrow> error + merged list" where
  "parse_strings_and_comments all_tokens =
     (case psc_loop all_tokens [] [] False mode_None of
        (string, tokens, in_double, mode) \<Rightarrow>
          if mode = comment_line \<or> mode = comment_bulk then Inr (tokens @ [CommentLit string])
          else if mode \<noteq> mode_None then Inl (SQFParserError ''String is not closed'')
          else Inr tokens)"

text \<open>The mode in which the scan of the whole input ends.\<close>

definition end_mode :: "string list \<Rightarrow> mode" where
  "end_mode all_tokens = snd (snd (snd (psc_loop all_tokens [] [] False mode_None)))"

subsection \<open>Where an input ends\<close>

text \<open>
  The words of the claim, \<^emph>\<open>the input ends inside an unterminated string or comment
  literal\<close>, as a property of the input alone, to compare with the scan. A string
  literal starts at a quote that is outside any literal; its body holds tokens other
  than that quote and doubled quotes, and it ends at the next quote that is not
  doubled. A bulk comment runs from \<^verbatim>\<open>/*\<close> to the next \<^verbatim>\<open>*/\<close>, a line comment from
  \<^verbatim>\<open>//\<close> to the next end of line. An input ends inside a literal when its last
  literal has no end; \<open>inside_comment c\<close> holds the text \<open>c\<close> of that comment.
\<close>

datatype ending = outside | inside_string | inside_comment string

inductive string_body :: "string \<Rightarrow> string list \<Rightarrow> bool" for q where
  body_end: "string_body q []"
| body_token: "t \<noteq> q \<Longrightarrow> string_body q ts \<Longrightarrow> string_body q (t # ts)"
| body_doubled: "string_body q ts \<Longrightarrow> string_body q (q # q # ts)"

inductive input_ends :: "ending \<Rightarrow> string list \<Rightarrow> bool" where
  ends_outside: "input_ends outside []"
| ends_string:
    "q = dquote \<or> q = squote \<Longrightarrow> string_body q b \<Longrightarrow> input_ends inside_string (q # b)"
| ends_bulk:
    "''*/'' \<notin> set b \<Longrightarrow> input_ends (inside_comment (concat (''/*'' # b))) (''/*'' # b)"
| ends_line:
    "newline \<notin> set b \<Longrightarrow> crlf \<notin> set b
     \<Longrightarrow> input_ends (inside_comment (concat (''//'' # b))) (''//'' # b)"
| after_token:
    "t \<noteq> dquote \<Longrightarrow> t \<noteq> squote \<Longrightarrow> t \<noteq> ''/*'' \<Longrightarrow> t \<noteq> ''//'' \<Longrightarrow> input_ends e ts
     \<Longrightarrow> input_ends e (t # ts)"
| after_string:
    "q = dquote \<or> q = squote \<Longrightarrow> string_body q b \<Longrightarrow> ts = [] \<or> hd ts \<noteq> q
     \<Longrightarrow> input_ends e ts \<Longrightarrow> input_ends e (q # b @ q # ts)"
| after_bulk:
    "''*/'' \<notin> set b \<Longrightarrow> input_ends e ts \<Longrightarrow> input_ends e (''/*'' # b @ ''*/'' # ts)"
| after_line:
    "newline \<notin> set b \<Longrightarrow> crlf \<notin> set b \<Longrightarrow> t = newline \<or> t = crlf \<Longrightarrow> input_ends e ts
     \<Longrightarrow> input_ends e (''//'' # b @ t # ts)"

text \<open>The state in which the scan ends agrees with where the input ends.\<close>

fun agrees :: "ending \<Rightarrow> string \<times> merged list \<times> bool \<times> mode \<Rightarrow> bool" where
  "agrees outside (s, acc, d, m) = (m = mode_None)"
| "agrees inside_string (s, acc, d, m) = (m = string_double \<or> m = string_single)"
| "agrees (inside_comment c) (s, acc, d, m) = ((m = comment_line \<or> m = comment_bulk) \<and> s = c)"

section \<open>Tokens and syntax trees\<close>

text \<open>
  The classes of \<^verbatim>\<open>sqf.types\<close>, \<^verbatim>\<open>sqf.parser_types\<close> and
  \<^verbatim>\<open>sqf.interpreter_types\<close> that the parser and the analyzer build and test
  with \<^verbatim>\<open>isinstance\<close> and \<^verbatim>\<open>type\<close>. Positions are left out.
  \<^verbatim>\<open>Preprocessor\<close> is the subclass of \<^verbatim>\<open>Keyword\<close> for directive names; the
  code only tests \<^verbatim>\<open>isinstance(token, Keyword)\<close> and the value of such a token,
  so a directive token is a \<open>Keyword\<close> here. \<open>T_Interpreter name\<close> stands for
  the other helper classes (subclasses of \<^verbatim>\<open>InterpreterType\<close>) that only the
  expression database produces.
\<close>

datatype ty =
    T_Keyword | T_Namespace | T_Variable | T_Number | T_Boolean | T_String
  | T_Comment | T_Space | T_Tab | T_EndOfLine | T_BrokenEndOfLine | T_EndOfFile
  | T_Statement | T_Code | T_Array | T_DefineStatement | T_DefineResult
  | T_Nothing | T_Object | T_File | T_PrivateType | T_ForType | T_Interpreter string

text \<open>
  \<open>Statement tokens ending parenthesis\<close>;
  \<open>DefineStatement tokens variable_name expression args ending\<close>;
  \<open>DefineResult tokens define_statement result\<close>;
  \<open>Instance T\<close> is \<^verbatim>\<open>T()\<close>, the object a class gives when called with no
  argument (\<^verbatim>\<open>Nothing()\<close>, \<^verbatim>\<open>Number()\<close>, \<^verbatim>\<open>Object()\<close>, ...): a value
  of which only the type is known.
\<close>

datatype token =
    Keyword string
  | Namespace string
  | Variable string
  | Number int
  | Boolean bool
  | String string
  | Comment string
  | Space
  | Tab
  | EndOfLine string
  | BrokenEndOfLine
  | EndOfFile
  | Statement "token list" string bool
  | Code "token list"
  | Array "token list"
  | DefineStatement "token list" string "token list" "string list" string
  | DefineResult "token list" token token
  | File "token list"
  | PrivateType token
  | Instance ty

abbreviation Nothing :: token where
  "Nothing \<equiv> Instance T_Nothing"

fun type_of :: "token \<Rightarrow> ty" where
  "type_of (Keyword v) = T_Keyword"
| "type_of (Namespace v) = T_Namespace"
| "type_of (Variable v) = T_Variable"
| "type_of (Number n) = T_Number"
| "type_of (Boolean b) = T_Boolean"
| "type_of (String s) = T_String"
| "type_of (Comment s) = T_Comment"
| "type_of Space = T_Space"
| "type_of Tab = T_Tab"
| "type_of (EndOfLine s) = T_EndOfLine"
| "type_of BrokenEndOfLine = T_BrokenEndOfLine"
| "type_of EndOfFile = T_EndOfFile"
| "type_of (Statement ts e p) = T_Statement"
| "type_of (Code ts) = T_Code"
| "type_of (Array ts) = T_Array"
| "type_of (DefineStatement ts v ex as e) = T_DefineStatement"
| "type_of (DefineResult ts d r) = T_DefineResult"
| "type_of (File ts) = T_File"
| "type_of (PrivateType v) = T_PrivateType"
| "type_of (Instance t) = t"

text \<open>\<^verbatim>\<open>isinstance(token, ParserType)\<close>: the classes of \<^verbatim>\<open>sqf.parser_types\<close>.\<close>

definition is_ParserType :: "token \<Rightarrow> bool" where
  "is_ParserType token =
     (type_of token \<in> {T_Comment, T_Space, T_Tab, T_EndOfLine, T_BrokenEndOfLine, T_EndOfFile})"

text \<open>\<^verbatim>\<open>isinstance(token, Statement)\<close>.\<close>

definition is_Statement :: "token \<Rightarrow> bool" where
  "is_Statement token = (type_of token = T_Statement)"

subsection \<open>The canonical textual form\<close>

text \<open>
  Modelled from the spec: \<^verbatim>\<open>str(token)\<close>, the canonical textual form of a token
  (\<^verbatim>\<open>sqf.types\<close> is not among the sources). A container prints its parts in
  order, between its brackets; a statement adds its ending.
\<close>

definition digit_char :: "nat \<Rightarrow> char" where
  "digit_char d = ''0123456789'' ! d"

function str_nat :: "nat \<Rightarrow> string" where
  "str_nat n = (if n < 10 then [digit_char n] else str_nat (n div 10) @ [digit_char (n mod 10)])"
  by pat_completeness auto
termination
  by (relation "measure id") auto

definition str_int :: "int \<Rightarrow> string" where
  "str_int k = (if k < 0 then ''-'' @ str_nat (nat (- k)) else str_nat (nat k))"

fun join :: "string \<Rightarrow> string list \<Rightarrow> string" where
  "join sep [] = []"
| "join sep [x] = x"
| "join sep (x # y # ys) = x @ sep @ join sep (y # ys)"

fun str_ty :: "ty \<Rightarrow> string" where
  "str_ty T_Nothing = ''Nothing''"
| "str_ty T_Code = ''{}''"
| "str_ty T_Array = ''[]''"
| "str_ty t = []"

fun str_tok :: "token \<Rightarrow> string" where
  "str_tok (Keyword v) = v"
| "str_tok (Namespace v) = v"
| "str_tok (Variable v) = v"
| "str_tok (Number n) = str_int n"
| "str_tok (Boolean b) = (if b then ''true'' else ''false'')"
| "str_tok (String s) = s"
| "str_tok (Comment s) = s"
| "str_tok Space = '' ''"
| "str_tok Tab = [CHR 0x09]"
| "str_tok (EndOfLine s) = s"
| "str_tok BrokenEndOfLine = [CHR 0x5C, CHR 0x0A]"
| "str_tok EndOfFile = []"
| "str_tok (Statement ts e p) =
     (if p then ''('' @ concat (map str_tok ts) @ '')'' else concat (map str_tok ts)) @ e"
| "str_tok (Code ts) = ''{'' @ concat (map str_tok ts) @ ''}''"
| "str_tok (Array ts) = ''['' @ join '','' (map str_tok ts) @ '']''"
| "str_tok (DefineStatement ts v ex as e) = concat (map str_tok ts) @ e"
| "str_tok (DefineResult ts d r) = concat (map str_tok ts)"
| "str_tok (File ts) = concat (map str_tok ts)"
| "str_tok (PrivateType v) = ''private '' @ str_tok v"
| "str_tok (Instance t) = str_ty t"

subsection \<open>Python lists and dictionaries\<close>

text \<open>
  \<^verbatim>\<open>xs[i]\<close> for a Python integer: a negative index counts from the end, an index
  out of range raises \<^verbatim>\<open>IndexError\<close>. \<^verbatim>\<open>xs[a:b]\<close> never raises: both bounds
  are normalised and clamped.
\<close>

definition py_get :: "'a list \<Rightarrow> int \<Rightarrow> error + 'a" where
  "py_get xs i =
     (let n = int (length xs)
      in if 0 \<le> i \<and> i < n then Inr (xs ! nat i)
         else if - n \<le> i \<and> i < 0 then Inr (xs ! nat (i + n))
         else Inl IndexError)"

definition py_bound :: "'a list \<Rightarrow> int \<Rightarrow> nat" where
  "py_bound xs i =
     (let n = int (length xs)
      in if i < 0 then nat (max 0 (i + n)) else nat (min i n))"

definition py_slice :: "'a list \<Rightarrow> int \<Rightarrow> int \<Rightarrow> 'a list" where
  "py_slice xs a b = drop (py_bound xs a) (take (py_bound xs b) xs)"

definition py_slice_to :: "'a list \<Rightarrow> int \<Rightarrow> 'a list" where
  "py_slice_to xs b = take (py_bound xs b) xs"

definition py_slice_from :: "'a list \<Rightarrow> int \<Rightarrow> 'a list" where
  "py_slice_from xs a = drop (py_bound xs a) xs"

text \<open>
  A \<^verbatim>\<open>dict\<close> keeps its keys in insertion order: an association list with one
  entry for each key. \<^verbatim>\<open>d[k] = v\<close> replaces the value of a key in place and
  appends a new key.
\<close>

fun dict_set :: "'k \<Rightarrow> 'v \<Rightarrow> ('k \<times> 'v) list \<Rightarrow> ('k \<times> 'v) list" where
  "dict_set k v [] = [(k, v)]"
| "dict_set k v ((k', v') # rest) =
     (if k = k' then (k, v) # rest else (k', v') # dict_set k v rest)"

text \<open>\<^verbatim>\<open>del d[k]\<close>, for a key that is in the dictionary.\<close>

definition dict_del :: "'k \<Rightarrow> ('k \<times> 'v) list \<Rightarrow> ('k \<times> 'v) list" where
  "dict_del k d = filter (\<lambda>entry. fst entry \<noteq> k) d"

section \<open>Statements and arrays from token runs\<close>

text \<open>
  \<^verbatim>\<open>_analyze_tokens\<close>. The expression parser \<^verbatim>\<open>parse_exp\<close> (module
  \<^verbatim>\<open>sqf.parser_exp\<close>) is not among the sources: it is a parameter, a function from
  the token run to the statement it builds, which may raise.
\<close>

definition analyze_tokens :: "(token list \<Rightarrow> error + token) \<Rightarrow> token list \<Rightarrow> error + token" where
  "analyze_tokens parse_exp tokens =
     (let ending = (if tokens \<noteq> [] \<and> last tokens = Keyword '';'' then '';''
                    else if tokens \<noteq> [] \<and> last tokens = Keyword '','' then '',''
                    else []);
          tokens = (if tokens \<noteq> [] \<and> (last tokens = Keyword '';'' \<or> last tokens = Keyword '','')
                    then butlast tokens else tokens)
      in case parse_exp tokens of
           Inl e \<Rightarrow> Inl e
         | Inr (Statement ts old_ending parenthesis) \<Rightarrow> Inr (Statement ts ending parenthesis)
         | Inr statement \<Rightarrow> Inr (Statement [statement] ending False))"

text \<open>
  \<^verbatim>\<open>_analyze_array_tokens\<close>: the loop over the tokens of the array, then the
  checks after it. \<^verbatim>\<open>tokens_until\<close> only gives the coordinate of the error.
\<close>

fun array_loop ::
  "(token list \<Rightarrow> error + token) \<Rightarrow> token list \<Rightarrow> token list \<Rightarrow> token list \<Rightarrow> bool
     \<Rightarrow> error + (token list \<times> token list \<times> bool)" where
  "array_loop parse_exp [] result part first_comma_found = Inr (result, part, first_comma_found)"
| "array_loop parse_exp (token # rest) result part first_comma_found =
     (if token = Keyword '','' then
        (if part = [] then Inl (SQFParserError ''Array cannot have an empty element'')
         else case analyze_tokens parse_exp part of
                Inl e \<Rightarrow> Inl e
              | Inr s \<Rightarrow> array_loop parse_exp rest (result @ [s]) [] True)
      else array_loop parse_exp rest result (part @ [token]) first_comma_found)"

definition analyze_array_tokens ::
  "(token list \<Rightarrow> error + token) \<Rightarrow> token list \<Rightarrow> error + token list" where
  "analyze_array_tokens parse_exp tokens =
     (case array_loop parse_exp tokens [] [] False of
        Inl e \<Rightarrow> Inl e
      | Inr (result, part, first_comma_found) \<Rightarrow>
          if part = [] \<and> first_comma_found then
            Inl (SQFParserError ''Array cannot have an empty element'')
          else if tokens \<noteq> [] then
            (case analyze_tokens parse_exp part of
               Inl e \<Rightarrow> Inl e
             | Inr s \<Rightarrow> Inr (result @ [s]))
          else Inr result)"

text \<open>
  An element without tokens: a comma that is the first token, a comma right after
  another comma, or a comma that is the last token. A whitespace token between two
  commas is a token: \<^verbatim>\<open>part\<close> is then not empty.
\<close>

fun consecutive_commas :: "token list \<Rightarrow> bool" where
  "consecutive_commas (a # b # rest) =
     ((a = Keyword '','' \<and> b = Keyword '','') \<or> consecutive_commas (b # rest))"
| "consecutive_commas _ = False"

definition element_without_tokens :: "token list \<Rightarrow> bool" where
  "element_without_tokens tokens =
     (tokens \<noteq> [] \<and>
       (hd tokens = Keyword '','' \<or> consecutive_commas tokens \<or> last tokens = Keyword '',''))"

text \<open>The contents of the arrays \<^verbatim>\<open>[1, ]\<close>, \<^verbatim>\<open>[ ,1]\<close> and \<^verbatim>\<open>[1, ,2]\<close>.\<close>

definition trailing_comma_and_space :: "token list" where
  "trailing_comma_and_space = [Number 1, Keyword '','', Space]"

definition space_and_leading_comma :: "token list" where
  "space_and_leading_comma = [Space, Keyword '','', Number 1]"

definition space_between_commas :: "token list" where
  "space_between_commas = [Number 1, Keyword '','', Space, Keyword '','', Number 2]"

text \<open>
  A stand-in for the expression parser, to run examples: one token is the statement
  itself, a longer run becomes one flat statement. It never raises.
\<close>

definition parse_exp_flat :: "token list \<Rightarrow> error + token" where
  "parse_exp_flat tokens = (case tokens of [t] \<Rightarrow> Inr t | _ \<Rightarrow> Inr (Statement tokens [] False))"

section \<open>The block parser: \<^verbatim>\<open>parse_block\<close>\<close>

subsection \<open>Macro definitions\<close>

text \<open>
  \<^verbatim>\<open>defines\<close> is a \<^verbatim>\<open>defaultdict(dict)\<close>: macro name to a dictionary from the
  number of arguments to the \<^verbatim>\<open>DefineStatement\<close>. It is one object shared by all
  calls of \<^verbatim>\<open>parse_block\<close>, so the model passes it on and returns it.
\<close>

type_synonym defines_t = "(string \<times> (nat \<times> token) list) list"

fun ds_args :: "token \<Rightarrow> string list" where
  "ds_args (DefineStatement ts v ex as e) = as"
| "ds_args t = []"

fun ds_expression :: "token \<Rightarrow> token list" where
  "ds_expression (DefineStatement ts v ex as e) = ex"
| "ds_expression t = []"

fun ds_variable_name :: "token \<Rightarrow> string" where
  "ds_variable_name (DefineStatement ts v ex as e) = v"
| "ds_variable_name t = []"

text \<open>\<^verbatim>\<open>defines[name][n] = define_statement\<close>, on the defaultdict.\<close>

definition defines_set :: "string \<Rightarrow> nat \<Rightarrow> token \<Rightarrow> defines_t \<Rightarrow> defines_t" where
  "defines_set name n ds defines =
     (case map_of defines name of
        None \<Rightarrow> defines @ [(name, [(n, ds)])]
      | Some inner \<Rightarrow> dict_set name (dict_set n ds inner) defines)"

text \<open>\<^verbatim>\<open>s.split(',')\<close> and \<^verbatim>\<open>s[1:-1]\<close> on strings.\<close>

fun split_comma :: "string \<Rightarrow> string \<Rightarrow> string list" where
  "split_comma cur [] = [cur]"
| "split_comma cur (c # cs) =
     (if c = CHR '','' then cur # split_comma [] cs else split_comma (cur @ [c]) cs)"

definition strip_ends :: "string \<Rightarrow> string" where
  "strip_ends s = py_slice s 1 (- 1)"

text \<open>
  \<^verbatim>\<open>_analyze_define\<close>. The default of \<^verbatim>\<open>expression\<close> and of \<^verbatim>\<open>args\<close> in
  \<^verbatim>\<open>DefineStatement\<close> is taken to be the empty list. \<^verbatim>\<open>tokens[valid_indexes[3]:]\<close>
  raises \<^verbatim>\<open>IndexError\<close> when there are only three valid indexes.
\<close>

definition analyze_define :: "token list \<Rightarrow> error + token" where
  "analyze_define tokens0 =
     (if tokens0 = [] then Inl IndexError
      else if hd tokens0 \<noteq> Keyword ''#define'' then Inl AssertionError
      else
        let strip = (type_of (last tokens0) = T_EndOfLine \<or> type_of (last tokens0) = T_Comment);
            ending = (if strip then str_tok (last tokens0) else []);
            tokens = (if strip then butlast tokens0 else tokens0);
            valid_indexes = filter (\<lambda>i. \<not> is_ParserType (tokens ! i)) [0..<length tokens]
        in if length valid_indexes < 2 then
             Inl (SQFParserError ''#define needs at least one argument'')
           else
             let variable = str_tok (tokens ! (valid_indexes ! 1))
             in if length valid_indexes = 2 then
                  Inr (DefineStatement tokens variable [] [] ending)
                else
                  (case tokens ! (valid_indexes ! 2) of
                     Statement ts e p \<Rightarrow>
                       if valid_indexes ! 1 + 1 = valid_indexes ! 2 \<and> p then
                         (if length valid_indexes = 3 then Inl IndexError
                          else Inr (DefineStatement tokens variable
                                      (drop (valid_indexes ! 3) tokens)
                                      (split_comma [] (strip_ends (str_tok (Statement ts e p))))
                                      ending))
                       else Inr (DefineStatement tokens variable
                                   (drop (valid_indexes ! 2) tokens) [] ending)
                   | _ \<Rightarrow> Inr (DefineStatement tokens variable
                                   (drop (valid_indexes ! 2) tokens) [] ending)))"

subsection \<open>Macro expansion\<close>

text \<open>
  \<^verbatim>\<open>replace_in_expression\<close>: a \<^verbatim>\<open>Statement\<close> is rebuilt from its replaced
  tokens; any other token is replaced by the actual argument
  \<^verbatim>\<open>all_tokens[arg_index]\<close> of the first formal argument whose name is its text.
\<close>

fun replace_in_expression ::
  "token list \<Rightarrow> string list \<Rightarrow> int list \<Rightarrow> token list \<Rightarrow> error + token list" where
  "replace_in_expression [] args arg_indexes all_tokens = Inr []"
| "replace_in_expression (token # rest) args arg_indexes all_tokens =
     (case (case token of
              Statement ts e p \<Rightarrow>
                (case replace_in_expression ts args arg_indexes all_tokens of
                   Inl err \<Rightarrow> Inl err
                 | Inr new_expression \<Rightarrow> Inr (Statement new_expression e p))
            | _ \<Rightarrow>
                (case map_of (zip args arg_indexes) (str_tok token) of
                   Some arg_index \<Rightarrow> py_get all_tokens arg_index
                 | None \<Rightarrow> Inr token)) of
        Inl err \<Rightarrow> Inl err
      | Inr token' \<Rightarrow>
          (case replace_in_expression rest args arg_indexes all_tokens of
             Inl err \<Rightarrow> Inl err
           | Inr rest' \<Rightarrow> Inr (token' # rest')))"

text \<open>
  The search for the arguments of a macro call at position \<open>i\<close>. The inner loop
  \<^verbatim>\<open>for arg_i in range(arg_number + 1)\<close> returns whether it ran to its end (the
  \<^verbatim>\<open>else\<close> of the \<^verbatim>\<open>for\<close>) and the indexes collected; \<^verbatim>\<open>arg_indexes\<close> is
  not reset from one candidate number of arguments to the next. The test
  \<^verbatim>\<open>re.match('(.*?)', arg_str)\<close> holds of every string.
\<close>

fun arg_loop :: "token list \<Rightarrow> int \<Rightarrow> nat \<Rightarrow> nat list \<Rightarrow> int list \<Rightarrow> error + bool \<times> int list" where
  "arg_loop all_tokens i arg_number [] arg_indexes = Inr (True, arg_indexes)"
| "arg_loop all_tokens i arg_number (arg_i # rest) arg_indexes =
     (let index = (if arg_i = arg_number then i + 2 + 2 * int arg_i - 1
                   else i + 2 + 2 * int arg_i)
      in if index \<ge> int (length all_tokens) then Inr (False, arg_indexes)
         else case py_get all_tokens index of
                Inl err \<Rightarrow> Inl err
              | Inr arg \<Rightarrow>
                  if arg_i = arg_number \<and> str_tok arg \<noteq> '')'' then Inr (False, arg_indexes)
                  else if arg_i \<noteq> arg_number then
                    arg_loop all_tokens i arg_number rest (arg_indexes @ [index])
                  else arg_loop all_tokens i arg_number rest arg_indexes)"

fun arity_loop ::
  "token list \<Rightarrow> int \<Rightarrow> (nat \<times> token) list \<Rightarrow> int list \<Rightarrow> error + token option \<times> int list" where
  "arity_loop all_tokens i [] arg_indexes = Inr (None, arg_indexes)"
| "arity_loop all_tokens i ((arg_number, define_statement) # rest) arg_indexes =
     (if arg_number = 0 then arity_loop all_tokens i rest arg_indexes
      else case arg_loop all_tokens i arg_number [0..<arg_number + 1] arg_indexes of
             Inl err \<Rightarrow> Inl err
           | Inr (True, arg_indexes') \<Rightarrow> Inr (Some define_statement, arg_indexes')
           | Inr (False, arg_indexes') \<Rightarrow> arity_loop all_tokens i rest arg_indexes')"

text \<open>
  The first part of the loop body: \<open>Some (define_statement, arg_indexes)\<close> when
  \<^verbatim>\<open>found\<close> is set.
\<close>

definition find_define ::
  "defines_t \<Rightarrow> token list \<Rightarrow> int \<Rightarrow> token \<Rightarrow> error + (token \<times> int list) option" where
  "find_define defines all_tokens i token =
     (case map_of defines (str_tok token) of
        None \<Rightarrow> Inr None
      | Some possible_args \<Rightarrow>
          (case (if i + 1 < int (length all_tokens) then
                   (case py_get all_tokens (i + 1) of
                      Inl err \<Rightarrow> Inl err
                    | Inr nxt \<Rightarrow> Inr (str_tok nxt = ''(''))
                 else Inr False) of
             Inl err \<Rightarrow> Inl err
           | Inr True \<Rightarrow>
               (case arity_loop all_tokens i possible_args [] of
                  Inl err \<Rightarrow> Inl err
                | Inr (None, arg_indexes) \<Rightarrow> Inr None
                | Inr (Some define_statement, arg_indexes) \<Rightarrow>
                    Inr (Some (define_statement, arg_indexes)))
           | Inr False \<Rightarrow>
               (case map_of possible_args 0 of
                  Some define_statement \<Rightarrow> Inr (Some (define_statement, []))
                | None \<Rightarrow> Inr None)))"

text \<open>
  \<^verbatim>\<open>extra_tokens_to_move\<close>, for \<^verbatim>\<open>arg_number = len(define_statement.args)\<close>.
\<close>

definition extra_tokens_to_move :: "nat \<Rightarrow> int" where
  "extra_tokens_to_move arg_number =
     1 + 2 * (if arg_number \<noteq> 0 then 1 else 0) + 2 * int arg_number
       - (if arg_number \<noteq> 0 then 1 else 0)"

text \<open>\<^verbatim>\<open>expression[0]\<close> when the expression is a \<^verbatim>\<open>Statement\<close>.\<close>

fun first_of_statement :: "token \<Rightarrow> error + token" where
  "first_of_statement (Statement [] e p) = Inl IndexError"
| "first_of_statement (Statement (t # ts) e p) = Inr t"
| "first_of_statement t = Inr t"

subsection \<open>The loop of \<^verbatim>\<open>parse_block\<close>\<close>

text \<open>
  The depth counters \<^verbatim>\<open>lvls\<close>: a dictionary with the keys \<^verbatim>\<open>'[]'\<close>,
  \<^verbatim>\<open>'()'\<close>, \<^verbatim>\<open>'{}'\<close>, in this order, and then one key for each directive of
  \<^verbatim>\<open>PREPROCESSORS\<close>. Every call works on its own copy. \<^verbatim>\<open>PREPROCESSORS\<close>
  (module \<^verbatim>\<open>sqf.keywords\<close>) is a parameter.
\<close>

type_synonym lvls = "string \<Rightarrow> int"

datatype stop_statement = both | single

definition not_closed :: "string \<Rightarrow> error" where
  "not_closed c = SQFParenthesisError (''Parenthesis '' @ dquote @ c @ dquote @ '' not closed'')"

text \<open>
  The code after the \<^verbatim>\<open>while\<close> loop: the counters are checked in the order of the
  dictionary, then the pending token run is finished.
\<close>

definition end_of_block ::
  "string list \<Rightarrow> (token list \<Rightarrow> error + token) \<Rightarrow> int \<Rightarrow> lvls \<Rightarrow> defines_t \<Rightarrow> int
     \<Rightarrow> token list \<Rightarrow> token list \<Rightarrow> error + token \<times> int \<times> defines_t" where
  "end_of_block PREPROCESSORS analyze start lvls defines i tokens statements =
     (if lvls ''[]'' \<noteq> 0 \<and> ''[]'' \<notin> set PREPROCESSORS then Inl (not_closed ''['')
      else if lvls ''()'' \<noteq> 0 \<and> ''()'' \<notin> set PREPROCESSORS then Inl (not_closed ''('')
      else if lvls ''{}'' \<noteq> 0 \<and> ''{}'' \<notin> set PREPROCESSORS then Inl (not_closed ''{'')
      else if tokens \<noteq> [] then
        (case analyze tokens of
           Inl err \<Rightarrow> Inl err
         | Inr s \<Rightarrow> Inr (Statement (statements @ [s]) [] False, i - start, defines))
      else Inr (Statement statements [] False, i - start, defines))"

text \<open>The branch of a closing \<^verbatim>\<open>]\<close>.\<close>

definition close_array ::
  "(token list \<Rightarrow> error + token list) \<Rightarrow> int \<Rightarrow> lvls \<Rightarrow> defines_t \<Rightarrow> int
     \<Rightarrow> token list \<Rightarrow> token list \<Rightarrow> error + token \<times> int \<times> defines_t" where
  "close_array analyze_array start lvls defines i tokens statements =
     (if lvls ''[]'' = 0 then
        Inl (SQFParenthesisError ''Trying to close right parenthesis without them opened.'')
      else if statements \<noteq> [] then
        (case hd statements of
           DefineResult ts d r \<Rightarrow>
             (case analyze_array ts of
                Inl err \<Rightarrow> Inl err
              | Inr elements \<Rightarrow> Inr (DefineResult [Array elements] d r, i - start, defines))
         | _ \<Rightarrow> Inl (SQFParserError (''A statement '' @ str_tok (Statement statements [] False)
                                       @ '' cannot be in an array'')))
      else
        (case analyze_array tokens of
           Inl err \<Rightarrow> Inl err
         | Inr elements \<Rightarrow> Inr (Array elements, i - start, defines)))"

text \<open>The branches of a closing \<^verbatim>\<open>)\<close> and of a closing \<^verbatim>\<open>}\<close>.\<close>

definition close_parenthesis ::
  "(token list \<Rightarrow> error + token) \<Rightarrow> int \<Rightarrow> lvls \<Rightarrow> defines_t \<Rightarrow> int
     \<Rightarrow> token list \<Rightarrow> token list \<Rightarrow> error + token \<times> int \<times> defines_t" where
  "close_parenthesis analyze start lvls defines i tokens statements =
     (if lvls ''()'' = 0 then
        Inl (SQFParenthesisError ''Trying to close parenthesis without opened parenthesis.'')
      else if tokens \<noteq> [] then
        (case analyze tokens of
           Inl err \<Rightarrow> Inl err
         | Inr s \<Rightarrow> Inr (Statement (statements @ [s]) [] True, i - start, defines))
      else Inr (Statement statements [] True, i - start, defines))"

definition close_code ::
  "(token list \<Rightarrow> error + token) \<Rightarrow> int \<Rightarrow> lvls \<Rightarrow> defines_t \<Rightarrow> int
     \<Rightarrow> token list \<Rightarrow> token list \<Rightarrow> error + token \<times> int \<times> defines_t" where
  "close_code analyze start lvls defines i tokens statements =
     (if lvls ''{}'' = 0 then
        Inl (SQFParenthesisError ''Trying to close brackets without opened brackets.'')
      else if tokens \<noteq> [] then
        (case analyze tokens of
           Inl err \<Rightarrow> Inl err
         | Inr s \<Rightarrow> Inr (Code (statements @ [s]), i - start, defines))
      else Inr (Code statements, i - start, defines))"

text \<open>
  The test of the separator branch:
  \<^verbatim>\<open>all(lvls[x] == 0 for x in PREPROCESSORS) and stop_statement == 'both' and
  token in (Keyword(';'), Keyword(',')) or stop_statement == 'single' and token ==
  Keyword(';')\<close>.
\<close>

definition is_separator :: "string list \<Rightarrow> lvls \<Rightarrow> stop_statement \<Rightarrow> token \<Rightarrow> bool" where
  "is_separator PREPROCESSORS lvls stop token =
     ((list_all (\<lambda>x. lvls x = 0) PREPROCESSORS \<and> stop = both
         \<and> (token = Keyword '';'' \<or> token = Keyword '',''))
      \<or> (stop = single \<and> token = Keyword '';''))"

text \<open>\<^verbatim>\<open>isinstance(token, Keyword) and token.value in PREPROCESSORS\<close>.\<close>

fun is_directive :: "string list \<Rightarrow> token \<Rightarrow> bool" where
  "is_directive PREPROCESSORS (Keyword v) = (v \<in> set PREPROCESSORS)"
| "is_directive PREPROCESSORS t = False"

fun keyword_value :: "token \<Rightarrow> string" where
  "keyword_value (Keyword v) = v"
| "keyword_value t = []"

text \<open>
  The test of the branch that ends a directive:
  \<^verbatim>\<open>type(token) in (EndOfLine, Comment, EndOfFile) and any(lvls[x] != 0 for x in
  PREPROCESSORS)\<close>, and the branch itself.
\<close>

definition ends_directive :: "string list \<Rightarrow> lvls \<Rightarrow> token \<Rightarrow> bool" where
  "ends_directive PREPROCESSORS lvls token =
     ((type_of token = T_EndOfLine \<or> type_of token = T_Comment \<or> type_of token = T_EndOfFile)
      \<and> list_ex (\<lambda>x. lvls x \<noteq> 0) PREPROCESSORS)"

definition end_directive ::
  "(token list \<Rightarrow> error + token) \<Rightarrow> token list \<Rightarrow> int \<Rightarrow> defines_t \<Rightarrow> int \<Rightarrow> token
     \<Rightarrow> token list \<Rightarrow> token list \<Rightarrow> error + token \<times> int \<times> defines_t" where
  "end_directive analyze all_tokens start defines i token tokens statements =
     (case py_get all_tokens (start - 1) of
        Inl err \<Rightarrow> Inl err
      | Inr trigger \<Rightarrow>
          let tokens = (if type_of token \<noteq> T_EndOfFile then trigger # tokens @ [token]
                        else trigger # tokens)
          in if hd tokens = Keyword ''#define'' then
               (case analyze_define tokens of
                  Inl err \<Rightarrow> Inl err
                | Inr define_statement \<Rightarrow>
                    Inr (Statement (statements @ [define_statement]) [] False, i - start,
                         defines_set (ds_variable_name define_statement)
                           (length (ds_args define_statement)) define_statement defines))
             else
               (case analyze tokens of
                  Inl err \<Rightarrow> Inl err
                | Inr s \<Rightarrow> Inr (Statement (statements @ [s]) [] False, i - start, defines)))"

text \<open>
  After the sub-parse of an expanded macro: the tokens of the call before the
  replacement, and the \<^verbatim>\<open>DefineResult\<close>. The result is the new statement and the
  number \<^verbatim>\<open>original_tokens_taken\<close>.
\<close>

definition define_result ::
  "token list \<Rightarrow> int \<Rightarrow> token list \<Rightarrow> token \<Rightarrow> token list \<Rightarrow> token list \<Rightarrow> token \<Rightarrow> int
     \<Rightarrow> error + token \<times> int" where
  "define_result all_tokens i tokens define_statement replaced_expression replacing_expression
       expression size' =
     (let original_tokens_taken =
            int (length replaced_expression) - int (length replacing_expression) + size';
          original_tokens =
            py_slice all_tokens (i - int (length tokens))
              (i - int (length tokens) + original_tokens_taken)
      in case (if is_Statement expression then first_of_statement expression
               else Inr expression) of
           Inl err \<Rightarrow> Inl err
         | Inr expression \<Rightarrow>
             if original_tokens = [] then Inl IndexError
             else if type_of (last original_tokens) = T_EndOfLine
                     \<or> type_of (last original_tokens) = T_Comment
                     \<or> type_of (last original_tokens) = T_EndOfFile then
               Inr (DefineResult (butlast original_tokens) define_statement expression,
                    original_tokens_taken - 1)
             else Inr (DefineResult original_tokens define_statement expression,
                       original_tokens_taken))"

text \<open>
  The \<^verbatim>\<open>while i < len(all_tokens)\<close> loop of \<^verbatim>\<open>parse_block\<close>, with the state
  \<open>i\<close>, \<open>tokens\<close>, \<open>statements\<close> and the shared \<open>defines\<close>. A macro can expand
  to a call of itself, so the function takes fuel: each iteration and each nested
  call uses one unit, and \<open>None\<close> is running out of it. The result of a call is the
  expression, the number of tokens consumed and \<open>defines\<close>.
\<close>

fun parse_loop ::
  "nat \<Rightarrow> string list \<Rightarrow> (token list \<Rightarrow> error + token) \<Rightarrow> (token list \<Rightarrow> error + token list)
     \<Rightarrow> token list \<Rightarrow> int \<Rightarrow> stop_statement \<Rightarrow> lvls \<Rightarrow> defines_t \<Rightarrow> int
     \<Rightarrow> token list \<Rightarrow> token list \<Rightarrow> (error + token \<times> int \<times> defines_t) option" where
  "parse_loop 0 PREPROCESSORS analyze analyze_array all_tokens start stop lvls defines i
      tokens statements = None"
| "parse_loop (Suc n) PREPROCESSORS analyze analyze_array all_tokens start stop lvls defines i
      tokens statements =
     (if \<not> i < int (length all_tokens) then
        Some (end_of_block PREPROCESSORS analyze start lvls defines i tokens statements)
      else
        case py_get all_tokens i of
          Inl err \<Rightarrow> Some (Inl err)
        | Inr token \<Rightarrow>
       (case find_define defines all_tokens i token of
          Inl err \<Rightarrow> Some (Inl err)
        | Inr (Some (define_statement, arg_indexes)) \<Rightarrow>
            (let extra = extra_tokens_to_move (length (ds_args define_statement));
                 replaced_expression = py_slice all_tokens i (i + extra)
             in case replace_in_expression (ds_expression define_statement)
                       (ds_args define_statement) arg_indexes all_tokens of
                  Inl err \<Rightarrow> Some (Inl err)
                | Inr replacing_expression \<Rightarrow>
                    (let new_all_tokens =
                           py_slice_to all_tokens (i - int (length tokens)) @ tokens
                             @ replacing_expression @ py_slice_from all_tokens (i + extra);
                         new_start = i - int (length tokens)
                     in case parse_loop n PREPROCESSORS analyze analyze_array new_all_tokens
                               new_start stop lvls defines new_start [] [] of
                          None \<Rightarrow> None
                        | Some (Inl err) \<Rightarrow> Some (Inl err)
                        | Some (Inr (expression, size', defines')) \<Rightarrow>
                            (case define_result all_tokens i tokens define_statement
                                    replaced_expression replacing_expression expression size' of
                               Inl err \<Rightarrow> Some (Inl err)
                             | Inr (result, original_tokens_taken) \<Rightarrow>
                                 parse_loop n PREPROCESSORS analyze analyze_array all_tokens
                                   start stop lvls defines'
                                   (i + (original_tokens_taken - int (length tokens) - 1) + 1)
                                   [] (statements @ [result]))))
        | Inr None \<Rightarrow>
            if token = Keyword ''['' then
              (case parse_loop n PREPROCESSORS analyze analyze_array all_tokens (i + 1) single
                      (lvls(''[]'' := lvls ''[]'' + 1)) defines (i + 1) [] [] of
                 None \<Rightarrow> None
               | Some (Inl err) \<Rightarrow> Some (Inl err)
               | Some (Inr (expression, size', defines')) \<Rightarrow>
                   parse_loop n PREPROCESSORS analyze analyze_array all_tokens start stop lvls
                     defines' (i + (size' + 1) + 1) (tokens @ [expression]) statements)
            else if token = Keyword ''('' then
              (case parse_loop n PREPROCESSORS analyze analyze_array all_tokens (i + 1) stop
                      (lvls(''()'' := lvls ''()'' + 1)) defines (i + 1) [] [] of
                 None \<Rightarrow> None
               | Some (Inl err) \<Rightarrow> Some (Inl err)
               | Some (Inr (expression, size', defines')) \<Rightarrow>
                   parse_loop n PREPROCESSORS analyze analyze_array all_tokens start stop lvls
                     defines' (i + (size' + 1) + 1) (tokens @ [expression]) statements)
            else if token = Keyword ''{'' then
              (case parse_loop n PREPROCESSORS analyze analyze_array all_tokens (i + 1) stop
                      (lvls(''{}'' := lvls ''{}'' + 1)) defines (i + 1) [] [] of
                 None \<Rightarrow> None
               | Some (Inl err) \<Rightarrow> Some (Inl err)
               | Some (Inr (expression, size', defines')) \<Rightarrow>
                   parse_loop n PREPROCESSORS analyze analyze_array all_tokens start stop lvls
                     defines' (i + (size' + 1) + 1) (tokens @ [expression]) statements)
            else if token = Keyword '']'' then
              Some (close_array analyze_array start lvls defines i tokens statements)
            else if token = Keyword '')'' then
              Some (close_parenthesis analyze start lvls defines i tokens statements)
            else if token = Keyword ''}'' then
              Some (close_code analyze start lvls defines i tokens statements)
            else if is_separator PREPROCESSORS lvls stop token then
              (case analyze (tokens @ [token]) of
                 Inl err \<Rightarrow> Some (Inl err)
               | Inr s \<Rightarrow>
                   parse_loop n PREPROCESSORS analyze analyze_array all_tokens start stop lvls
                     defines (i + 1) [] (statements @ [s]))
            else if is_directive PREPROCESSORS token then
              (case (if tokens \<noteq> [] then
                       (case analyze tokens of
                          Inl err \<Rightarrow> Inl err
                        | Inr s \<Rightarrow> Inr (statements @ [s]))
                     else Inr statements) of
                 Inl err \<Rightarrow> Some (Inl err)
               | Inr statements' \<Rightarrow>
                   (case parse_loop n PREPROCESSORS analyze analyze_array all_tokens (i + 1) stop
                           (lvls(keyword_value token := lvls (keyword_value token) + 1))
                           defines (i + 1) [] [] of
                      None \<Rightarrow> None
                    | Some (Inl err) \<Rightarrow> Some (Inl err)
                    | Some (Inr (expression, size', defines')) \<Rightarrow>
                        parse_loop n PREPROCESSORS analyze analyze_array all_tokens start stop
                          lvls defines' (i + (size' + 1) + 1) [] (statements' @ [expression])))
            else if ends_directive PREPROCESSORS lvls token then
              Some (end_directive analyze all_tokens start defines i token tokens statements)
            else if type_of token \<noteq> T_EndOfFile then
              parse_loop n PREPROCESSORS analyze analyze_array all_tokens start stop lvls
                defines (i + 1) (tokens @ [token]) statements
            else
              parse_loop n PREPROCESSORS analyze analyze_array all_tokens start stop lvls
                defines (i + 1) tokens statements))"

text \<open>
  \<^verbatim>\<open>parse_block\<close>: the loop from \<open>start\<close>, with no pending tokens or statements.
  The caller's \<^verbatim>\<open>initial_lvls\<close> is given (the first call gives the counters that
  are all zero).
\<close>

definition parse_block ::
  "nat \<Rightarrow> string list \<Rightarrow> (token list \<Rightarrow> error + token) \<Rightarrow> (token list \<Rightarrow> error + token list)
     \<Rightarrow> token list \<Rightarrow> int \<Rightarrow> lvls \<Rightarrow> stop_statement \<Rightarrow> defines_t
     \<Rightarrow> (error + token \<times> int \<times> defines_t) option" where
  "parse_block fuel PREPROCESSORS analyze analyze_array all_tokens start initial_lvls stop defines =
     parse_loop fuel PREPROCESSORS analyze analyze_array all_tokens start stop initial_lvls
       defines start [] []"

text \<open>
  \<^verbatim>\<open>parse\<close>, from the identified tokens of the script on: the block parser runs on
  the tokens and a final \<^verbatim>\<open>EndOfFile\<close>, with \<^verbatim>\<open>_analyze_tokens\<close> and
  \<^verbatim>\<open>_analyze_array_tokens\<close>, and the expression is the result.
\<close>

definition parse_tokens ::
  "nat \<Rightarrow> string list \<Rightarrow> (token list \<Rightarrow> error + token) \<Rightarrow> token list
     \<Rightarrow> (error + token) option" where
  "parse_tokens fuel PREPROCESSORS parse_exp tokens =
     (case parse_block fuel PREPROCESSORS (analyze_tokens parse_exp)
             (analyze_array_tokens parse_exp) (tokens @ [EndOfFile]) 0 (\<lambda>k. 0) both [] of
        None \<Rightarrow> None
      | Some (Inl err) \<Rightarrow> Some (Inl err)
      | Some (Inr (expression, size', defines)) \<Rightarrow> Some (Inr expression))"

subsection \<open>Example inputs\<close>

text \<open>
  A value for \<^verbatim>\<open>PREPROCESSORS\<close> to run examples with, and the counters of a first
  call.
\<close>

definition PREPROCESSORS_example :: "string list" where
  "PREPROCESSORS_example = [''#define'', ''#include'']"

definition zero_lvls :: lvls where
  "zero_lvls = (\<lambda>k. 0)"

text \<open>The line \<^verbatim>\<open>#define X a;b\<close>.\<close>

definition semicolon_in_define :: "token list" where
  "semicolon_in_define =
     [Keyword ''#define'', Space, Variable ''X'', Space, Variable ''a'', Keyword '';'',
      Variable ''b'', EndOfLine newline]"



subsection \<open>Correctly paired brackets\<close>












section \<open>The analyzer: state and collaborators\<close>

text \<open>
  The diagnostics the analyzer stores are exception objects: a parser error or a
  warning, with the message.
\<close>

datatype diagnostic = ParserError string | SQFWarning string

text \<open>The Python errors that end an analysis: the model returns them.\<close>

datatype failure = Assertion | KeyError | ValueError | TypeError | Raised string

text \<open>
  Modelled from the spec: a \<^verbatim>\<open>Scope\<close> is a mapping from variable name to value
  with a nesting level, a \<^verbatim>\<open>Namespace\<close> a stack of scopes in which the level of a
  scope is its position (0 is the outermost scope); reading a name that a scope does
  not hold gives \<^verbatim>\<open>Nothing\<close> (\<^verbatim>\<open>sqf.base_interpreter\<close> and the namespace
  classes are not among the sources).
\<close>

type_synonym scope = "(string \<times> token) list"

record analyzer =
  namespaces :: "(string \<times> scope list) list"
  current_namespace :: string
  exceptions :: "diagnostic list"
  privates :: "token list"
  unevaluated_interpreter_tokens :: "token list"
  unexecuted_codes :: "(string \<times> token) list"
  executed_codes :: "(string \<times> token) list"
  defines_dict :: "(string \<times> token) list"

text \<open>
  \<^verbatim>\<open>Analyzer()\<close>: the four namespaces of the base interpreter, each with its
  outermost scope, and the empty lists and dictionaries of \<^verbatim>\<open>__init__\<close>.
\<close>

definition new_Analyzer :: analyzer where
  "new_Analyzer =
     \<lparr> namespaces = [(''uinamespace'', [[]]), (''parsingnamespace'', [[]]),
                      (''missionnamespace'', [[]]), (''profilenamespace'', [[]])],
       current_namespace = ''missionnamespace'',
       exceptions = [], privates = [], unevaluated_interpreter_tokens = [],
       unexecuted_codes = [], executed_codes = [], defines_dict = [] \<rparr>"

text \<open>\<^verbatim>\<open>self.exception(e)\<close> appends to \<^verbatim>\<open>self.exceptions\<close>.\<close>

definition exception :: "diagnostic \<Rightarrow> analyzer \<Rightarrow> analyzer" where
  "exception e s = s\<lparr>exceptions := exceptions s @ [e]\<rparr>"

text \<open>
  Modelled from the spec: \<^verbatim>\<open>Variable.is_global\<close>. A name that starts with the
  sigil \<^verbatim>\<open>_\<close> is local, any other is global.
\<close>

definition is_global :: "string \<Rightarrow> bool" where
  "is_global name = (\<not> (name \<noteq> [] \<and> hd name = CHR ''_''))"

definition scope_get :: "scope \<Rightarrow> string \<Rightarrow> token" where
  "scope_get sc name = (case map_of sc name of None \<Rightarrow> Nothing | Some v \<Rightarrow> v)"

text \<open>
  Modelled from the spec: \<^verbatim>\<open>get_scope(name, namespace_name)\<close>. A local name is
  looked up through the stack of the namespace, from the innermost scope down to
  level 1; the scope found holds it. A global name, and a local name that no nested
  scope holds, are in the scope of level 0. The result is a reference to a scope: the
  name of the namespace and the level.
\<close>

fun find_level :: "scope list \<Rightarrow> string \<Rightarrow> nat" where
  "find_level [] name = 0"
| "find_level (sc # below) name =
     (if below \<noteq> [] \<and> map_of sc name \<noteq> None then length below else find_level below name)"

definition get_scope :: "analyzer \<Rightarrow> string \<Rightarrow> string option \<Rightarrow> failure + string \<times> nat" where
  "get_scope s name namespace_name =
     (let ns = (case namespace_name of None \<Rightarrow> current_namespace s | Some n \<Rightarrow> n)
      in case map_of (namespaces s) ns of
           None \<Rightarrow> Inl KeyError
         | Some stack \<Rightarrow>
             if stack = [] then Inl (Raised ''IndexError'')
             else Inr (ns, if is_global name then 0 else find_level (rev stack) name))"

text \<open>\<^verbatim>\<open>scope[name]\<close> and \<^verbatim>\<open>scope[name] = value\<close> through such a reference.\<close>

definition read_scope :: "analyzer \<Rightarrow> string \<times> nat \<Rightarrow> string \<Rightarrow> token" where
  "read_scope s ref name =
     (case map_of (namespaces s) (fst ref) of
        None \<Rightarrow> Nothing
      | Some stack \<Rightarrow> if snd ref < length stack then scope_get (stack ! snd ref) name
                      else Nothing)"

definition write_scope :: "analyzer \<Rightarrow> string \<times> nat \<Rightarrow> string \<Rightarrow> token \<Rightarrow> analyzer" where
  "write_scope s ref name v =
     (case map_of (namespaces s) (fst ref) of
        None \<Rightarrow> s
      | Some stack \<Rightarrow>
          s\<lparr>namespaces :=
               dict_set (fst ref) (stack[snd ref := dict_set name v (stack ! snd ref)])
                 (namespaces s)\<rparr>)"

text \<open>
  Modelled from the spec: \<^verbatim>\<open>current_scope\<close> is the innermost scope of the
  current namespace; \<^verbatim>\<open>add_scope\<close> pushes a scope with the given bindings and
  \<^verbatim>\<open>del_scope\<close> pops it.
\<close>

definition current_scope :: "analyzer \<Rightarrow> failure + string \<times> nat" where
  "current_scope s =
     (case map_of (namespaces s) (current_namespace s) of
        None \<Rightarrow> Inl KeyError
      | Some stack \<Rightarrow> if stack = [] then Inl KeyError
                      else Inr (current_namespace s, length stack - 1))"

definition add_scope :: "scope \<Rightarrow> analyzer \<Rightarrow> failure + analyzer" where
  "add_scope values s =
     (case map_of (namespaces s) (current_namespace s) of
        None \<Rightarrow> Inl KeyError
      | Some stack \<Rightarrow>
          Inr (s\<lparr>namespaces := dict_set (current_namespace s) (stack @ [values])
                                   (namespaces s)\<rparr>))"

definition del_scope :: "analyzer \<Rightarrow> failure + analyzer" where
  "del_scope s =
     (case map_of (namespaces s) (current_namespace s) of
        None \<Rightarrow> Inl KeyError
      | Some stack \<Rightarrow>
          if stack = [] then Inl KeyError
          else Inr (s\<lparr>namespaces := dict_set (current_namespace s) (butlast stack)
                                        (namespaces s)\<rparr>))"

text \<open>
  Modelled from the spec: \<^verbatim>\<open>add_privates(variables)\<close> registers each name, given
  as a string literal, as declared private in the current scope, with the value
  \<^verbatim>\<open>Nothing\<close>; a name without the sigil is reported. The value of a string
  literal is its text without the quotes.
\<close>

definition global_private :: "string \<Rightarrow> diagnostic" where
  "global_private name =
     ParserError (''Cannot make global variable '' @ dquote @ name @ dquote
                    @ '' private (underscore missing?)'')"

fun add_privates :: "token list \<Rightarrow> analyzer \<Rightarrow> failure + analyzer" where
  "add_privates [] s = Inr s"
| "add_privates (String lit # rest) s =
     (let name = strip_ends lit;
          s1 = (if is_global name then exception (global_private name) s else s)
      in case current_scope s1 of
           Inl f \<Rightarrow> Inl f
         | Inr ref \<Rightarrow> add_privates rest (write_scope s1 ref name Nothing))"
| "add_privates (t # rest) s = Inl Assertion"

text \<open>
  Modelled from the spec: \<^verbatim>\<open>get_variable(token)\<close> gives the variable a token
  stands for: the token itself, or the first base token of a statement.
\<close>

definition base_tokens :: "token list \<Rightarrow> token list" where
  "base_tokens ts = filter (\<lambda>t. \<not> is_ParserType t) ts"

fun get_variable :: "token \<Rightarrow> token" where
  "get_variable (Statement ts e p) = (case base_tokens ts of [] \<Rightarrow> Nothing | t # rest \<Rightarrow> t)"
| "get_variable t = t"

text \<open>\<^verbatim>\<open>isinstance(x, Code)\<close> (\<^verbatim>\<open>File\<close> is a subclass), \<^verbatim>\<open>isinstance(x,
  InterpreterType)\<close>, and \<^verbatim>\<open>isinstance(x, Type)\<close>, the values of the symbolic
  domain.\<close>

definition is_Code :: "token \<Rightarrow> bool" where
  "is_Code t = (type_of t = T_Code \<or> type_of t = T_File)"

fun is_InterpreterType_ty :: "ty \<Rightarrow> bool" where
  "is_InterpreterType_ty T_PrivateType = True"
| "is_InterpreterType_ty T_ForType = True"
| "is_InterpreterType_ty (T_Interpreter name) = True"
| "is_InterpreterType_ty t = False"

definition is_InterpreterType :: "token \<Rightarrow> bool" where
  "is_InterpreterType t = is_InterpreterType_ty (type_of t)"

definition is_Type :: "token \<Rightarrow> bool" where
  "is_Type t =
     (type_of t \<in> {T_Number, T_String, T_Boolean, T_Array, T_Code, T_File, T_Object, T_Nothing}
      \<or> is_InterpreterType t)"

text \<open>The tokens a code block or a statement holds.\<close>

fun tokens_of :: "token \<Rightarrow> token list" where
  "tokens_of (Statement ts e p) = ts"
| "tokens_of (Code ts) = ts"
| "tokens_of (File ts) = ts"
| "tokens_of (Array ts) = ts"
| "tokens_of t = []"

fun ending_of :: "token \<Rightarrow> string" where
  "ending_of (Statement ts e p) = e"
| "ending_of t = []"

fun parenthesis_of :: "token \<Rightarrow> bool" where
  "parenthesis_of (Statement ts e p) = p"
| "parenthesis_of t = False"

text \<open>
  The expression database (\<^verbatim>\<open>sqf.database\<close>, \<^verbatim>\<open>sqf.expressions\<close>) is a
  parameter: \<^verbatim>\<open>values_to_expressions(values, EXPRESSIONS_MAP, EXPRESSIONS)\<close> is a
  function from the values to the candidate expressions. An expression has its
  keyword, its \<^verbatim>\<open>types_or_values\<close> (each a class or a value), its return type,
  its two match predicates, and \<^verbatim>\<open>execute(values, interpreter)\<close>, which may change
  the interpreter and may raise.
\<close>

datatype type_or_value = A_type ty | A_value token

datatype expression_class = NullExpression | UnaryExpression | BinaryExpression

record expression =
  expression_class :: expression_class
  keyword :: token
  types_or_values :: "type_or_value list"
  return_type :: "ty option"
  is_signature_match :: "token list \<Rightarrow> bool"
  is_match :: "token list \<Rightarrow> bool"
  execute :: "token list \<Rightarrow> analyzer \<Rightarrow> failure + token \<times> analyzer"

type_synonym database = "token list \<Rightarrow> expression list"

text \<open>The messages of the analyzer.\<close>

definition not_from_this_scope :: "string \<Rightarrow> diagnostic" where
  "not_from_this_scope name =
     SQFWarning (''Local variable '' @ dquote @ name @ dquote
                   @ '' is not from this scope (not private)'')"

definition assigned_to_outer_scope :: "string \<Rightarrow> diagnostic" where
  "assigned_to_outer_scope name =
     SQFWarning (''Local variable '' @ dquote @ name @ dquote
                   @ '' assigned to an outer scope (not private)'')"

definition private_not_string :: diagnostic where
  "private_not_string = SQFWarning ''private argument must be a string.''"

fun class_name :: "ty \<Rightarrow> string" where
  "class_name T_Keyword = ''Keyword''"
| "class_name T_Namespace = ''Namespace''"
| "class_name T_Variable = ''Variable''"
| "class_name T_Number = ''Number''"
| "class_name T_Boolean = ''Boolean''"
| "class_name T_String = ''String''"
| "class_name T_Comment = ''Comment''"
| "class_name T_Space = ''Space''"
| "class_name T_Tab = ''Tab''"
| "class_name T_EndOfLine = ''EndOfLine''"
| "class_name T_BrokenEndOfLine = ''BrokenEndOfLine''"
| "class_name T_EndOfFile = ''EndOfFile''"
| "class_name T_Statement = ''Statement''"
| "class_name T_Code = ''Code''"
| "class_name T_Array = ''Array''"
| "class_name T_DefineStatement = ''DefineStatement''"
| "class_name T_DefineResult = ''DefineResult''"
| "class_name T_Nothing = ''Nothing''"
| "class_name T_Object = ''Object''"
| "class_name T_File = ''File''"
| "class_name T_PrivateType = ''PrivateType''"
| "class_name T_ForType = ''ForType''"
| "class_name (T_Interpreter name) = name"

definition helper_not_evaluated :: "token \<Rightarrow> diagnostic" where
  "helper_not_evaluated t =
     SQFWarning (''helper type '' @ dquote @ class_name (type_of t) @ dquote
                   @ '' not evaluated'')"

section \<open>The analyzer: \<^verbatim>\<open>Analyzer\<close>\<close>

text \<open>
  Every method returns the interpreter state with its result; \<open>None\<close> is running
  out of fuel, \<open>Some (Inl f)\<close> a Python error that ends the analysis.
\<close>

type_synonym 'a outcome = "(failure + 'a) option"

definition bind :: "'a outcome \<Rightarrow> ('a \<Rightarrow> 'b outcome) \<Rightarrow> 'b outcome" where
  "bind m f = (case m of None \<Rightarrow> None | Some (Inl e) \<Rightarrow> Some (Inl e) | Some (Inr x) \<Rightarrow> f x)"

definition lift :: "failure + 'a \<Rightarrow> 'a outcome" where
  "lift r = Some r"

definition return :: "'a \<Rightarrow> 'a outcome" where
  "return x = Some (Inr x)"

subsection \<open>The branches of \<^verbatim>\<open>execute_single\<close> that do not recurse\<close>

text \<open>The end of \<^verbatim>\<open>value\<close>: a code value not yet tracked is recorded as unexecuted.\<close>

definition track_code :: "token \<Rightarrow> analyzer \<Rightarrow> analyzer" where
  "track_code result s =
     (if is_Code result \<and> map_of (unexecuted_codes s) (str_tok result) = None
      then s\<lparr>unexecuted_codes := unexecuted_codes s @ [(str_tok result, result)]\<rparr>
      else s)"

text \<open>The start of \<^verbatim>\<open>execute_code\<close>: the code is no longer unexecuted, and is executed.\<close>

definition record_executed :: "token \<Rightarrow> analyzer \<Rightarrow> analyzer" where
  "record_executed code s =
     s\<lparr>unexecuted_codes := dict_del (str_tok code) (unexecuted_codes s),
       executed_codes := dict_set (str_tok code) code (executed_codes s)\<rparr>"

text \<open>The branch of \<^verbatim>\<open>#define\<close> and the branch of \<^verbatim>\<open>#include\<close>.\<close>

definition define_directive :: "token list \<Rightarrow> analyzer \<Rightarrow> analyzer" where
  "define_directive bt s =
     (if length bt < 2 then
        exception (ParserError ''#define must have at least one argument'') s
      else if length bt = 2 then
        s\<lparr>defines_dict := dict_set (str_tok (bt ! 1)) Nothing (defines_dict s)\<rparr>
      else if length bt = 3 then
        s\<lparr>defines_dict := dict_set (str_tok (bt ! 1)) (bt ! 2) (defines_dict s)\<rparr>
      else
        s\<lparr>defines_dict := dict_set (str_tok (bt ! 1)) (Statement (drop 3 bt) [] False)
                              (defines_dict s)\<rparr>)"

definition include_directive :: "token list \<Rightarrow> analyzer \<Rightarrow> analyzer" where
  "include_directive bt s =
     (if length bt \<noteq> 2 \<or> type_of (bt ! 1) \<noteq> T_String then
        exception (ParserError ''Wrong syntax for #include'') s
      else s)"

text \<open>
  The assignment, once the left-hand side and the value of the right-hand side are
  known (the lines from \<^verbatim>\<open>rhs_t = type(rhs_v)\<close> on). \<^verbatim>\<open>rhs_t()\<close> is the value
  of the type alone.
\<close>

definition assign :: "analyzer \<Rightarrow> token \<Rightarrow> token \<Rightarrow> string \<Rightarrow> failure + token \<times> analyzer" where
  "assign s lhs rhs_v ending =
     (case lhs of
        Variable name \<Rightarrow>
          (case get_scope s name None of
             Inl f \<Rightarrow> Inl f
           | Inr scope \<Rightarrow>
               let lhs_t = type_of (read_scope s scope name);
                   rhs_t = (if lhs_t \<noteq> T_Nothing \<and> lhs_t \<noteq> type_of rhs_v then T_Nothing
                            else type_of rhs_v);
                   s1 = write_scope s scope name (Instance rhs_t);
                   s2 = (if snd scope = 0 \<and> \<not> is_global name
                         then exception (assigned_to_outer_scope name) s1 else s1)
               in Inr (if ending = [] then rhs_v else Nothing, s2))
      | _ \<Rightarrow> Inr (Nothing,
                  exception (ParserError ''lhs of assignment operator must be a variable'') s))"

text \<open>
  The left-hand side of an assignment, from the result of \<^verbatim>\<open>execute_token\<close>: a
  pending \<^verbatim>\<open>PrivateType\<close> is removed from \<^verbatim>\<open>self.privates\<close>
  (\<^verbatim>\<open>list.remove\<close> raises \<^verbatim>\<open>ValueError\<close> when it is not there).
\<close>

definition assignment_lhs :: "token \<Rightarrow> token \<Rightarrow> analyzer \<Rightarrow> failure + token \<times> analyzer" where
  "assignment_lhs first lhs s =
     (case lhs of
        PrivateType variable \<Rightarrow>
          if lhs \<in> set (privates s)
          then Inr (variable, s\<lparr>privates := remove1 lhs (privates s)\<rparr>)
          else Inl ValueError
      | _ \<Rightarrow> Inr (get_variable first, s))"

text \<open>\<^verbatim>\<open>str.isupper\<close>, on ASCII letters.\<close>

definition is_upper_char :: "char \<Rightarrow> bool" where
  "is_upper_char c = (65 \<le> (of_char c :: nat) \<and> (of_char c :: nat) \<le> 90)"

definition is_lower_char :: "char \<Rightarrow> bool" where
  "is_lower_char c = (97 \<le> (of_char c :: nat) \<and> (of_char c :: nat) \<le> 122)"

definition isupper :: "string \<Rightarrow> bool" where
  "isupper s = (list_ex is_upper_char s \<and> \<not> list_ex is_lower_char s)"

text \<open>The heuristic for a call of a macro that is defined somewhere else.\<close>

definition looks_like_define :: "token list \<Rightarrow> analyzer \<Rightarrow> bool" where
  "looks_like_define bt s =
     (length bt = 2
      \<and> ((case bt ! 0 of Variable name \<Rightarrow> is_global name | _ \<Rightarrow> False)
          \<or> isupper (str_tok (bt ! 0))
          \<or> map_of (defines_dict s) (str_tok (bt ! 0)) \<noteq> None)
      \<and> type_of (bt ! 1) = T_Statement \<and> parenthesis_of (bt ! 1))"

text \<open>The bindings a built-in gives to the code it runs.\<close>

definition extra_scope_of :: "expression \<Rightarrow> token list \<Rightarrow> scope option" where
  "extra_scope_of case_found values =
     (if keyword case_found = Keyword ''select'' \<or> keyword case_found = Keyword ''apply''
         \<or> keyword case_found = Keyword ''count'' then Some [(''_x'', Nothing)]
      else if keyword case_found = Keyword ''foreach'' then
        Some [(''_foreachindex'', Instance T_Number), (''_x'', Nothing)]
      else if keyword case_found = Keyword ''catch'' then
        Some [(''_exception'', Instance T_Object)]
      else if keyword case_found = Keyword ''do'' \<and> values \<noteq> []
              \<and> type_of (hd values) = T_ForType then
        Some [(''_i'', Instance T_Number)]
      else None)"

text \<open>
  The message for values that match no signature of a unary or of a binary operator.
  \<^verbatim>\<open>x.__name__\<close> needs a class, \<^verbatim>\<open>x.value\<close> a keyword, and an index has to be in
  range.
\<close>

fun name_of :: "type_or_value list \<Rightarrow> nat \<Rightarrow> failure + string" where
  "name_of tvs k =
     (if k < length tvs then
        (case tvs ! k of A_type t \<Rightarrow> Inr (class_name t) | A_value v \<Rightarrow> Inl (Raised ''AttributeError''))
      else Inl (Raised ''IndexError''))"

fun value_at :: "type_or_value list \<Rightarrow> nat \<Rightarrow> failure + string" where
  "value_at tvs k =
     (if k < length tvs then
        (case tvs ! k of A_value (Keyword v) \<Rightarrow> Inr v | _ \<Rightarrow> Inl (Raised ''AttributeError''))
      else Inl (Raised ''IndexError''))"

fun unary_names :: "expression list \<Rightarrow> failure + string list" where
  "unary_names [] = Inr []"
| "unary_names (exp # rest) =
     (case name_of (types_or_values exp) 1 of
        Inl f \<Rightarrow> Inl f
      | Inr a \<Rightarrow> (case unary_names rest of Inl f \<Rightarrow> Inl f | Inr r \<Rightarrow> Inr (a # r)))"

fun binary_names :: "expression list \<Rightarrow> failure + string list" where
  "binary_names [] = Inr []"
| "binary_names (exp # rest) =
     (case name_of (types_or_values exp) 0 of
        Inl f \<Rightarrow> Inl f
      | Inr a \<Rightarrow>
          (case name_of (types_or_values exp) 2 of
             Inl f \<Rightarrow> Inl f
           | Inr b \<Rightarrow>
               (case binary_names rest of
                  Inl f \<Rightarrow> Inl f
                | Inr r \<Rightarrow> Inr ((''('' @ a @ '','' @ b @ '')'') # r))))"

definition mismatch_message :: "expression list \<Rightarrow> token list \<Rightarrow> failure + string" where
  "mismatch_message possible_expressions values =
     (case expression_class (hd possible_expressions) of
        UnaryExpression \<Rightarrow>
          (case unary_names possible_expressions of
             Inl f \<Rightarrow> Inl f
           | Inr names \<Rightarrow>
               (case value_at (types_or_values (hd possible_expressions)) 0 of
                  Inl f \<Rightarrow> Inl f
                | Inr keyword_name \<Rightarrow>
                    if length values < 2 then Inl (Raised ''IndexError'')
                    else Inr (''Unary operator '' @ dquote @ keyword_name @ dquote
                              @ '' only accepts argument of types ['' @ join '','' names
                              @ ''] (rhs is '' @ class_name (type_of (values ! 1)) @ '')'')))
      | BinaryExpression \<Rightarrow>
          (case binary_names possible_expressions of
             Inl f \<Rightarrow> Inl f
           | Inr names \<Rightarrow>
               (case value_at (types_or_values (hd possible_expressions)) 1 of
                  Inl f \<Rightarrow> Inl f
                | Inr keyword_name \<Rightarrow>
                    if length values < 3 then Inl (Raised ''IndexError'')
                    else Inr (''Binary operator '' @ dquote @ keyword_name @ dquote
                              @ '' arguments must be ['' @ join '','' names @ '']''
                              @ '' (lhs is '' @ class_name (type_of (values ! 0))
                              @ '', rhs is '' @ class_name (type_of (values ! 2)) @ '')'')))
      | NullExpression \<Rightarrow> Inl Assertion)"

text \<open>
  The end of \<^verbatim>\<open>execute_single\<close>: a helper value is recorded as not yet evaluated,
  and a statement with an ending gives \<^verbatim>\<open>Nothing\<close>.
\<close>

definition finish :: "token \<Rightarrow> token \<Rightarrow> analyzer \<Rightarrow> token \<times> analyzer" where
  "finish statement outcome s =
     (let s1 = (if is_InterpreterType outcome
                then s\<lparr>unevaluated_interpreter_tokens :=
                         unevaluated_interpreter_tokens s @ [outcome]\<rparr>
                else s)
      in (if ending_of statement \<noteq> [] then Nothing else outcome, s1))"

text \<open>
  The part of \<^verbatim>\<open>execute_single\<close> when no signature matches: one value alone is
  the outcome; a statement that starts with a global variable is accepted; otherwise an
  error is reported.
\<close>

definition no_case_found ::
  "token \<Rightarrow> token list \<Rightarrow> token list \<Rightarrow> expression list \<Rightarrow> analyzer
     \<Rightarrow> failure + token \<times> analyzer" where
  "no_case_found statement bt values possible_expressions s =
     (if length values = 1 then
        Inr (finish statement (hd values)
               (if \<not> is_Type (hd values)
                then exception (ParserError (dquote @ str_tok statement @ dquote
                                  @ '' is syntactically incorrect (missing ;?)'')) s
                else s))
      else if (case bt ! 0 of Variable name \<Rightarrow> is_global name | _ \<Rightarrow> False) then
        Inr (finish statement Nothing s)
      else if possible_expressions \<noteq> [] then
        (case mismatch_message possible_expressions values of
           Inl f \<Rightarrow> Inl f
         | Inr message \<Rightarrow> Inr (finish statement Nothing (exception (ParserError message) s)))
      else
        Inr (finish statement Nothing
               (exception (ParserError ''statement is syntactically incorrect (missing ;?)'') s)))"

text \<open>
  The outcome when a signature matches: the expression runs on an exact match;
  otherwise the outcome is the return type of the only candidate, or \<^verbatim>\<open>Nothing\<close>.
\<close>

definition case_outcome ::
  "expression \<Rightarrow> expression list \<Rightarrow> token list \<Rightarrow> analyzer \<Rightarrow> failure + token \<times> analyzer" where
  "case_outcome case_found possible_expressions values s =
     (if is_match case_found values then execute case_found values s
      else if length possible_expressions = 1
              \<and> return_type (hd possible_expressions) \<noteq> None then
        Inr (Instance (the (return_type (hd possible_expressions))), s)
      else Inr (Nothing, s))"

text \<open>
  The end of the execution of a file: the pending \<^verbatim>\<open>private\<close> declarations and
  the helper values never evaluated are reported.
\<close>

definition end_of_file :: "analyzer \<Rightarrow> analyzer" where
  "end_of_file s =
     s\<lparr>exceptions := exceptions s @ map (\<lambda>p. private_not_string) (privates s)
                        @ map helper_not_evaluated (unevaluated_interpreter_tokens s)\<rparr>"

text \<open>
  The analyzer of \<^verbatim>\<open>execute_unexecuted_code\<close>: a new \<^verbatim>\<open>Analyzer\<close> whose
  namespaces are a deep copy of those of \<open>s\<close> (a copy that shares nothing with the
  original is the same value), in the mission namespace.
\<close>

definition child_Analyzer :: "analyzer \<Rightarrow> analyzer" where
  "child_Analyzer s =
     new_Analyzer\<lparr>namespaces := namespaces s, current_namespace := ''missionnamespace''\<rparr>"

subsection \<open>The methods\<close>

text \<open>
  \<^verbatim>\<open>value\<close>, \<^verbatim>\<open>execute_token\<close>, \<^verbatim>\<open>execute_single\<close>, \<^verbatim>\<open>execute_code\<close> and
  \<^verbatim>\<open>execute_unexecuted_code\<close> call each other through \<^verbatim>\<open>self\<close>. In the model
  \<open>self\<close> is the record of the five methods, and the body of each method is a
  function of \<open>self\<close>. The loops over lists are recursive functions on the list.
\<close>

record methods =
  value_m :: "analyzer \<Rightarrow> token \<Rightarrow> string option \<Rightarrow> (token \<times> analyzer) outcome"
  execute_token_m :: "analyzer \<Rightarrow> token \<Rightarrow> (token \<times> analyzer) outcome"
  execute_single_m :: "analyzer \<Rightarrow> token \<Rightarrow> (token \<times> analyzer) outcome"
  execute_code_m ::
    "analyzer \<Rightarrow> token \<Rightarrow> token option \<Rightarrow> scope option \<Rightarrow> (token \<times> analyzer) outcome"
  execute_unexecuted_code_m :: "analyzer \<Rightarrow> token \<Rightarrow> analyzer outcome"

text \<open>\<^verbatim>\<open>[self.value(self.execute_token(s)) for s in token.value]\<close>.\<close>

fun value_list :: "methods \<Rightarrow> analyzer \<Rightarrow> token list \<Rightarrow> (token list \<times> analyzer) outcome" where
  "value_list self s [] = return ([], s)"
| "value_list self s (e # rest) =
     bind (execute_token_m self s e) (\<lambda>(t, s1).
     bind (value_m self s1 t None) (\<lambda>(v, s2).
     bind (value_list self s2 rest) (\<lambda>(vs, s3). return (v # vs, s3))))"

text \<open>\<^verbatim>\<open>value\<close>.\<close>

definition value_body ::
  "database \<Rightarrow> methods \<Rightarrow> analyzer \<Rightarrow> token \<Rightarrow> string option \<Rightarrow> (token \<times> analyzer) outcome" where
  "value_body db self s token namespace_name =
     bind
       (case token of
          Statement ts e p \<Rightarrow>
            bind (execute_token_m self s token) (\<lambda>(t, s1). value_m self s1 t None)
        | Variable name \<Rightarrow>
            bind (lift (get_scope s name namespace_name))
              (\<lambda>scope.
                 let s1 = (if snd scope = 0 \<and> \<not> is_global name
                           then exception (not_from_this_scope name) s else s)
                 in return (read_scope s1 scope name, s1))
        | Array elements \<Rightarrow>
            bind (value_list self s elements) (\<lambda>(vs, s1). return (Array vs, s1))
        | _ \<Rightarrow>
            (case db [token] of
               [] \<Rightarrow> return (token, s)
             | null_expression # others \<Rightarrow> lift (execute null_expression [token] s)))
       (\<lambda>(result, s1). return (result, track_code result s1))"

text \<open>\<^verbatim>\<open>[self.execute_token(s) for s in token.value]\<close> and \<^verbatim>\<open>execute_token\<close>.\<close>

fun execute_token_list ::
  "methods \<Rightarrow> analyzer \<Rightarrow> token list \<Rightarrow> (token list \<times> analyzer) outcome" where
  "execute_token_list self s [] = return ([], s)"
| "execute_token_list self s (e # rest) =
     bind (execute_token_m self s e) (\<lambda>(t, s1).
     bind (execute_token_list self s1 rest) (\<lambda>(ts, s2). return (t # ts, s2)))"

definition execute_token_body :: "methods \<Rightarrow> analyzer \<Rightarrow> token \<Rightarrow> (token \<times> analyzer) outcome" where
  "execute_token_body self s token =
     (case token of
        Statement ts e p \<Rightarrow> execute_single_m self s token
      | Array elements \<Rightarrow>
          bind (execute_token_list self s elements) (\<lambda>(ts, s1). return (Array ts, s1))
      | _ \<Rightarrow>
          (case map_of (defines_dict s) (str_tok token) of
             Some d \<Rightarrow> execute_token_m self s d
           | None \<Rightarrow> return (token, s)))"

text \<open>
  The loop \<^verbatim>\<open>for token in base_tokens\<close> of \<^verbatim>\<open>execute_single\<close>, and the loop
  over \<^verbatim>\<open>zip(values, case_found.types_or_values)\<close>.
\<close>

fun evaluate_all ::
  "methods \<Rightarrow> analyzer \<Rightarrow> token list \<Rightarrow> (token list \<times> token list \<times> analyzer) outcome" where
  "evaluate_all self s [] = return ([], [], s)"
| "evaluate_all self s (token # rest) =
     bind (execute_token_m self s token) (\<lambda>(t, s1).
     bind (value_m self s1 t None) (\<lambda>(v, s2).
     bind (evaluate_all self s2 rest) (\<lambda>(tokens, values, s3).
       return (t # tokens, v # values, s3))))"

fun execute_codes ::
  "methods \<Rightarrow> analyzer \<Rightarrow> (token \<times> type_or_value) list \<Rightarrow> scope option \<Rightarrow> analyzer outcome" where
  "execute_codes self s [] extra_scope = return s"
| "execute_codes self s ((v, t_or_v) # rest) extra_scope =
     bind (if t_or_v = A_type T_Code \<and> is_Code v then
             bind (execute_code_m self s v None extra_scope) (\<lambda>(outcome, s1). return s1)
           else return s) (\<lambda>s1.
       execute_codes self
         (if is_InterpreterType v \<and> v \<in> set (unevaluated_interpreter_tokens s1)
          then s1\<lparr>unevaluated_interpreter_tokens :=
                    remove1 v (unevaluated_interpreter_tokens s1)\<rparr>
          else s1)
         rest extra_scope)"

text \<open>The branch of \<^verbatim>\<open>private\<close>, after \<^verbatim>\<open>rhs = self.execute_token(base_tokens[1])\<close>.\<close>

definition private_branch :: "methods \<Rightarrow> token \<Rightarrow> analyzer \<Rightarrow> (token \<times> analyzer) outcome" where
  "private_branch self rhs s1 =
     (case rhs of
        String lit \<Rightarrow>
          bind (lift (add_privates [rhs] s1)) (\<lambda>s2. return (Nothing, s2))
      | Array elements \<Rightarrow>
          bind (value_m self s1 rhs None) (\<lambda>(v, s2).
          bind (lift (add_privates (tokens_of v) s2)) (\<lambda>s3. return (Nothing, s3)))
      | Variable name \<Rightarrow>
          bind (lift (add_privates [String (dquote @ name @ dquote)] s1)) (\<lambda>s2.
            return (PrivateType rhs, s2\<lparr>privates := privates s2 @ [PrivateType rhs]\<rparr>))
      | _ \<Rightarrow> return (Nothing, exception (ParserError ''`private` used incorrectly'') s1))"

text \<open>The general case of \<^verbatim>\<open>execute_single\<close>.\<close>

definition general_case ::
  "database \<Rightarrow> methods \<Rightarrow> analyzer \<Rightarrow> token \<Rightarrow> token list \<Rightarrow> (token \<times> analyzer) outcome" where
  "general_case db self s statement bt =
     bind (evaluate_all self s bt) (\<lambda>(tokens, values, s1).
       let possible_expressions = db values
       in case find (\<lambda>c. is_signature_match c values) possible_expressions of
            Some case_found \<Rightarrow>
              bind (lift (case_outcome case_found possible_expressions values s1))
                (\<lambda>(outcome, s2).
              bind (execute_codes self s2 (zip values (types_or_values case_found))
                      (extra_scope_of case_found values)) (\<lambda>s3.
                if \<not> is_Type outcome then lift (Inl Assertion)
                else return (finish statement outcome s3)))
          | None \<Rightarrow>
              lift (no_case_found statement bt values possible_expressions s1))"

text \<open>\<^verbatim>\<open>execute_single\<close>.\<close>

definition execute_single_body ::
  "string list \<Rightarrow> database \<Rightarrow> methods \<Rightarrow> analyzer \<Rightarrow> token \<Rightarrow> (token \<times> analyzer) outcome" where
  "execute_single_body PP db self s statement =
     (let bt = base_tokens (tokens_of statement)
      in if \<not> is_Statement statement then lift (Inl Assertion)
         else if bt = [] then return (Nothing, s)
         else if bt ! 0 = Keyword ''#define'' then return (Nothing, define_directive bt s)
         else if bt ! 0 = Keyword ''#include'' then return (Nothing, include_directive bt s)
         else if is_directive PP (bt ! 0) then return (Nothing, s)
         else if length bt = 2 \<and> bt ! 0 = Keyword ''private'' then
           bind (execute_token_m self s (bt ! 1)) (\<lambda>(rhs, s1). private_branch self rhs s1)
         else if length bt = 3 \<and> bt ! 1 = Keyword ''='' then
           bind (execute_token_m self s (bt ! 0)) (\<lambda>(lhs, s1).
           bind (lift (assignment_lhs (bt ! 0) lhs s1)) (\<lambda>(lhs, s2).
           bind (value_m self s2 (bt ! 2) None) (\<lambda>(rhs_v, s3).
             lift (assign s3 lhs rhs_v (ending_of statement)))))
         else if length bt = 1
                 \<and> (type_of (bt ! 0) = T_Variable \<or> type_of (bt ! 0) = T_Array) then
           execute_token_m self s (bt ! 0)
         else if looks_like_define bt s then return (Nothing, s)
         else general_case db self s statement bt)"

text \<open>
  Modelled from the spec: \<open>base_execute_code\<close> is \<^verbatim>\<open>execute_code\<close> of the base
  interpreter. It pushes a scope with the extra bindings and \<^verbatim>\<open>_this\<close>,
  evaluates the statements of the code in order, each with
  \<^verbatim>\<open>self.value(self.execute_token(statement))\<close>, pops the scope and returns the
  last value.
\<close>

fun statements_loop ::
  "methods \<Rightarrow> analyzer \<Rightarrow> token list \<Rightarrow> token \<Rightarrow> (token \<times> analyzer) outcome" where
  "statements_loop self s [] outcome = return (outcome, s)"
| "statements_loop self s (statement # rest) outcome =
     bind (execute_token_m self s statement) (\<lambda>(t, s1).
     bind (value_m self s1 t None) (\<lambda>(v, s2).
       statements_loop self s2 rest v))"

definition base_execute_code ::
  "methods \<Rightarrow> analyzer \<Rightarrow> token \<Rightarrow> token option \<Rightarrow> scope option
     \<Rightarrow> (token \<times> analyzer) outcome" where
  "base_execute_code self s code params extra_scope =
     bind (lift (add_scope
                   (dict_set ''_this'' (case params of None \<Rightarrow> Nothing | Some p \<Rightarrow> p)
                      (case extra_scope of None \<Rightarrow> [] | Some e \<Rightarrow> e)) s)) (\<lambda>s1.
     bind (statements_loop self s1 (base_tokens (tokens_of code)) Nothing) (\<lambda>(outcome, s2).
     bind (lift (del_scope s2)) (\<lambda>s3. return (outcome, s3))))"

text \<open>
  The loop \<^verbatim>\<open>for code in self._unexecuted_codes\<close> at the end of a file, on the
  codes of the dictionary in its order, and \<^verbatim>\<open>execute_code\<close>.
\<close>

fun unexecuted_loop :: "methods \<Rightarrow> analyzer \<Rightarrow> token list \<Rightarrow> analyzer outcome" where
  "unexecuted_loop self s [] = return s"
| "unexecuted_loop self s (code # rest) =
     bind (execute_unexecuted_code_m self s code) (\<lambda>s1. unexecuted_loop self s1 rest)"

definition execute_code_body ::
  "methods \<Rightarrow> analyzer \<Rightarrow> token \<Rightarrow> token option \<Rightarrow> scope option
     \<Rightarrow> (token \<times> analyzer) outcome" where
  "execute_code_body self s code params extra_scope =
     bind (base_execute_code self (record_executed code s) code params extra_scope)
       (\<lambda>(outcome, s1).
          if type_of code = T_File then
            bind (unexecuted_loop self s1 (map snd (unexecuted_codes s1))) (\<lambda>s2.
              return (outcome, end_of_file s2))
          else return (outcome, s1))"

text \<open>\<^verbatim>\<open>execute_unexecuted_code\<close>.\<close>

definition execute_unexecuted_code_body :: "methods \<Rightarrow> analyzer \<Rightarrow> token \<Rightarrow> analyzer outcome" where
  "execute_unexecuted_code_body self s code =
     (if map_of (unexecuted_codes s) (str_tok code) = None then lift (Inl Assertion)
      else if map_of (namespaces s) ''missionnamespace'' = None then lift (Inl KeyError)
      else
        bind (execute_code_m self (child_Analyzer s) (File (tokens_of code)) None None)
          (\<lambda>(outcome, analyser).
             return (s\<lparr>exceptions := exceptions s @ exceptions analyser\<rparr>)))"

text \<open>
  The methods call each other without bound (a macro of the analyzer can stand for
  itself): \<open>Analyzer_methods PP db n\<close> are the methods that can nest calls to the
  depth \<open>n\<close>, and \<open>None\<close> is the result of a call that would go deeper.
\<close>

primrec Analyzer_methods :: "string list \<Rightarrow> database \<Rightarrow> nat \<Rightarrow> methods" where
  "Analyzer_methods PP db 0 =
     \<lparr> value_m = (\<lambda>s token namespace_name. None),
       execute_token_m = (\<lambda>s token. None),
       execute_single_m = (\<lambda>s statement. None),
       execute_code_m = (\<lambda>s code params extra_scope. None),
       execute_unexecuted_code_m = (\<lambda>s code. None) \<rparr>"
| "Analyzer_methods PP db (Suc n) =
     (let self = Analyzer_methods PP db n
      in \<lparr> value_m = value_body db self,
           execute_token_m = execute_token_body self,
           execute_single_m = execute_single_body PP db self,
           execute_code_m = execute_code_body self,
           execute_unexecuted_code_m = execute_unexecuted_code_body self \<rparr>)"

definition value_of ::
  "nat \<Rightarrow> string list \<Rightarrow> database \<Rightarrow> analyzer \<Rightarrow> token \<Rightarrow> string option
     \<Rightarrow> (token \<times> analyzer) outcome" where
  "value_of n PP db = value_m (Analyzer_methods PP db n)"

definition execute_token ::
  "nat \<Rightarrow> string list \<Rightarrow> database \<Rightarrow> analyzer \<Rightarrow> token \<Rightarrow> (token \<times> analyzer) outcome" where
  "execute_token n PP db = execute_token_m (Analyzer_methods PP db n)"

definition execute_single ::
  "nat \<Rightarrow> string list \<Rightarrow> database \<Rightarrow> analyzer \<Rightarrow> token \<Rightarrow> (token \<times> analyzer) outcome" where
  "execute_single n PP db = execute_single_m (Analyzer_methods PP db n)"

definition execute_code ::
  "nat \<Rightarrow> string list \<Rightarrow> database \<Rightarrow> analyzer \<Rightarrow> token \<Rightarrow> token option \<Rightarrow> scope option
     \<Rightarrow> (token \<times> analyzer) outcome" where
  "execute_code n PP db = execute_code_m (Analyzer_methods PP db n)"

definition execute_unexecuted_code ::
  "nat \<Rightarrow> string list \<Rightarrow> database \<Rightarrow> analyzer \<Rightarrow> token \<Rightarrow> analyzer outcome" where
  "execute_unexecuted_code n PP db = execute_unexecuted_code_m (Analyzer_methods PP db n)"

text \<open>
  \<^verbatim>\<open>analyze(statement, analyzer)\<close>: the tokens of the parsed script are executed as
  a \<^verbatim>\<open>File\<close>, with \<^verbatim>\<open>_this\<close> bound; the result is the analyzer.
\<close>

definition analyze ::
  "nat \<Rightarrow> string list \<Rightarrow> database \<Rightarrow> token \<Rightarrow> analyzer \<Rightarrow> analyzer outcome" where
  "analyze fuel PP db statement analyzer =
     (if \<not> is_Statement statement then lift (Inl Assertion)
      else bind (execute_code fuel PP db analyzer (File (tokens_of statement)) None
                   (Some [(''_this'', Nothing)]))
             (\<lambda>(outcome, s). return s))"

text \<open>A database with no expression, to run examples.\<close>

definition no_expressions :: database where
  "no_expressions values = []"


subsection \<open>Example scripts\<close>



text \<open>
  The code \<^verbatim>\<open>{_x = 1;}\<close>, and the script \<^verbatim>\<open>_f = {_x = 1;};\<close>, which never
  calls it.
\<close>

definition code_x :: token where
  "code_x = Code [Statement [Variable ''_x'', Space, Keyword ''='', Space, Number 1] '';'' False]"

definition code_never_called :: token where
  "code_never_called =
     Statement
       [Statement [Variable ''_f'', Space, Keyword ''='', Space, code_x] '';'' False]
       [] False"

text \<open>
  The code \<^verbatim>\<open>{X = 1;}\<close>, and the script \<^verbatim>\<open>F = {X = 1;};\<close>: an assignment to
  a global name inside a code block.
\<close>

definition code_global :: token where
  "code_global = Code [Statement [Variable ''X'', Space, Keyword ''='', Space, Number 1] '';'' False]"

definition global_assigned_in_code :: token where
  "global_assigned_in_code =
     Statement
       [Statement [Variable ''F'', Space, Keyword ''='', Space, code_global] '';'' False]
       [] False"

text \<open>
  A database with the one expression \<^verbatim>\<open>call <code>\<close>, which the analyzer runs
  through its loop over the code operands, and the script
  \<^verbatim>\<open>call {X = 1;}; F = {X = 1;};\<close>.
\<close>

definition call_expression :: expression where
  "call_expression =
     \<lparr> expression_class = UnaryExpression,
       keyword = Keyword ''call'',
       types_or_values = [A_value (Keyword ''call''), A_type T_Code],
       return_type = None,
       is_signature_match = (\<lambda>vs. length vs = 2 \<and> vs ! 0 = Keyword ''call'' \<and> is_Code (vs ! 1)),
       is_match = (\<lambda>vs. length vs = 2 \<and> vs ! 0 = Keyword ''call'' \<and> is_Code (vs ! 1)),
       execute = (\<lambda>vs s. Inr (Nothing, s)) \<rparr>"

definition call_database :: database where
  "call_database values =
     (if length values = 2 \<and> values ! 0 = Keyword ''call'' then [call_expression] else [])"

definition call_then_assign :: token where
  "call_then_assign =
     Statement
       [Statement [Keyword ''call'', Space, code_global] '';'' False,
        Space,
        Statement [Variable ''F'', Space, Keyword ''='', Space, code_global] '';'' False]
       [] False"

text \<open>The diagnostics of a finished analysis.\<close>

definition diagnostics_of :: "analyzer outcome \<Rightarrow> diagnostic list outcome" where
  "diagnostics_of r =
     (case r of None \<Rightarrow> None | Some (Inl f) \<Rightarrow> Some (Inl f) | Some (Inr s) \<Rightarrow> Some (Inr (exceptions s)))"

text \<open>
  A local name is declared in a nested scope when a scope of the current namespace
  above the outermost one holds it.
\<close>

definition declared_in_nested_scope :: "analyzer \<Rightarrow> string \<Rightarrow> bool" where
  "declared_in_nested_scope s name =
     (case map_of (namespaces s) (current_namespace s) of
        None \<Rightarrow> False
      | Some stack \<Rightarrow> list_ex (\<lambda>sc. map_of sc name \<noteq> None) (tl stack))"

text \<open>A code is tracked twice when its text is a key of both dictionaries.\<close>

definition tracked_twice :: "token \<Rightarrow> analyzer outcome \<Rightarrow> bool" where
  "tracked_twice code r =
     (case r of
        Some (Inr s) \<Rightarrow>
          map_of (unexecuted_codes s) (str_tok code) \<noteq> None
          \<and> map_of (executed_codes s) (str_tok code) \<noteq> None
      | _ \<Rightarrow> False)"

text \<open>
  An analyzer in which \<^verbatim>\<open>_a\<close> is recorded as a number in the outermost scope, and
  the statement \<^verbatim>\<open>_a = "s"\<close>.
\<close>

definition analyzer_with_number :: analyzer where
  "analyzer_with_number =
     write_scope new_Analyzer (''missionnamespace'', 0) ''_a'' (Instance T_Number)"

definition assign_string :: token where
  "assign_string =
     Statement [Variable ''_a'', Space, Keyword ''='', Space, String (dquote @ ''s'' @ dquote)]
       [] False"

text \<open>
  An analyzer inside a code block in which \<^verbatim>\<open>_a\<close> was declared private, and the
  statement \<^verbatim>\<open>_a = 1;\<close>.
\<close>

definition analyzer_with_private :: analyzer where
  "analyzer_with_private =
     new_Analyzer\<lparr>namespaces :=
       dict_set ''missionnamespace'' [[], [(''_a'', Nothing)]] (namespaces new_Analyzer)\<rparr>"

definition assign_one :: token where
  "assign_one = Statement [Variable ''_a'', Space, Keyword ''='', Space, Number 1] '';'' False"


text \<open>The analyzer at the end of the analysis of \<^verbatim>\<open>_f = {_x = 1;};\<close>.\<close>

definition code_never_called_final :: analyzer where
  "code_never_called_final =
     \<lparr> namespaces = [(''uinamespace'', [[]]), (''parsingnamespace'', [[]]),
                      (''missionnamespace'', [[(''_f'', Instance T_Code)]]),
                      (''profilenamespace'', [[]])],
       current_namespace = ''missionnamespace'',
       exceptions = [assigned_to_outer_scope ''_f'', assigned_to_outer_scope ''_x''],
       privates = [], unevaluated_interpreter_tokens = [],
       unexecuted_codes = [(''{_x = 1;}'', code_x)],
       executed_codes = [(''_f = {_x = 1;};'', File (tokens_of code_never_called))],
       defines_dict = [] \<rparr>"

section \<open>Properties of the literal merger\<close>

lemma psc_loop_no_quotes:
  "dquote \<notin> set ts \<Longrightarrow> squote \<notin> set ts \<Longrightarrow> m \<noteq> string_double \<Longrightarrow> m \<noteq> string_single
   \<Longrightarrow> snd (snd (snd (psc_loop ts s acc d m))) \<notin> {string_double, string_single}"
proof (induction ts arbitrary: s acc d m)
  case Nil
  then show ?case by simp
next
  case (Cons t ts)
  then show ?case by (cases m) auto
qed

lemma parse_strings_and_comments_no_quotes:
  assumes "dquote \<notin> set ts" and "squote \<notin> set ts"
  shows "\<exists>r. parse_strings_and_comments ts = Inr r"
proof -
  have "snd (snd (snd (psc_loop ts [] [] False mode_None))) \<notin> {string_double, string_single}"
    using assms by (intro psc_loop_no_quotes) simp_all
  then show ?thesis
    by (cases "psc_loop ts [] [] False mode_None"; cases "end_mode ts")
       (auto simp: parse_strings_and_comments_def end_mode_def)
qed

subsection \<open>The scan and where the input ends\<close>

lemma quotes_distinct:
  "dquote \<noteq> squote" "dquote \<noteq> ''/*''" "dquote \<noteq> ''//''" "squote \<noteq> ''/*''" "squote \<noteq> ''//''"
  "squote \<noteq> dquote"
  by (simp_all add: dquote_def squote_def)

lemma double_scan:
  "string_body dquote b \<Longrightarrow>
     psc_loop b s acc False string_double = (s @ concat b, acc, False, string_double)"
proof (induction arbitrary: s rule: string_body.induct)
  case body_end
  then show ?case by simp
next
  case (body_token t ts)
  then show ?case by simp
next
  case (body_doubled ts)
  then show ?case by simp
qed

lemma single_scan:
  "string_body squote b \<Longrightarrow>
     psc_loop b s acc False string_single = (s @ concat b, acc, False, string_single)"
proof (induction arbitrary: s rule: string_body.induct)
  case body_end
  then show ?case by simp
next
  case (body_token t ts)
  then show ?case by simp
next
  case (body_doubled ts)
  then show ?case by simp
qed

lemma double_close:
  "string_body dquote b \<Longrightarrow> ts = [] \<or> hd ts \<noteq> dquote \<Longrightarrow>
     psc_loop (b @ dquote # ts) s acc False string_double
       = psc_loop ts (s @ concat b @ dquote) (acc @ [StringLit (s @ concat b @ dquote)]) False
           mode_None"
proof (induction arbitrary: s rule: string_body.induct)
  case body_end
  then show ?case by (cases ts) simp_all
next
  case (body_token t ts')
  then show ?case by simp
next
  case (body_doubled ts')
  then show ?case by simp
qed

lemma single_close:
  "string_body squote b \<Longrightarrow> ts = [] \<or> hd ts \<noteq> squote \<Longrightarrow>
     psc_loop (b @ squote # ts) s acc False string_single
       = psc_loop ts (s @ concat b @ squote) (acc @ [StringLit (s @ concat b @ squote)]) False
           mode_None"
proof (induction arbitrary: s rule: string_body.induct)
  case body_end
  then show ?case by (cases ts) simp_all
next
  case (body_token t ts')
  then show ?case by simp
next
  case (body_doubled ts')
  then show ?case by simp
qed

lemma bulk_scan:
  "''*/'' \<notin> set b \<Longrightarrow> psc_loop b s acc d comment_bulk = (s @ concat b, acc, d, comment_bulk)"
  by (induction b arbitrary: s) auto

lemma bulk_close:
  "''*/'' \<notin> set b \<Longrightarrow> psc_loop (b @ ''*/'' # ts) s acc d comment_bulk
     = psc_loop ts [] (acc @ [CommentLit (s @ concat b @ ''*/'')]) d mode_None"
  by (induction b arbitrary: s) auto

lemma line_scan:
  "newline \<notin> set b \<Longrightarrow> crlf \<notin> set b
   \<Longrightarrow> psc_loop b s acc d comment_line = (s @ concat b, acc, d, comment_line)"
  by (induction b arbitrary: s) auto

lemma line_close:
  "newline \<notin> set b \<Longrightarrow> crlf \<notin> set b \<Longrightarrow> t = newline \<or> t = crlf
   \<Longrightarrow> psc_loop (b @ t # ts) s acc d comment_line
     = psc_loop ts [] (acc @ [CommentLit (s @ concat b @ t)]) d mode_None"
  by (induction b arbitrary: s) auto

lemma input_ends_scan:
  "input_ends e ts \<Longrightarrow> agrees e (psc_loop ts s acc False mode_None)"
proof (induction arbitrary: s acc rule: input_ends.induct)
  case ends_outside
  then show ?case by simp
next
  case (ends_string q b)
  then show ?case using quotes_distinct by (auto simp: double_scan single_scan)
next
  case (ends_bulk b)
  then show ?case using quotes_distinct by (simp add: bulk_scan)
next
  case (ends_line b)
  then show ?case using quotes_distinct by (simp add: line_scan)
next
  case (after_token t e ts)
  then show ?case by simp
next
  case (after_string q b ts e)
  then show ?case using quotes_distinct by (auto simp: double_close single_close)
next
  case (after_bulk b e ts)
  then show ?case using quotes_distinct by (simp add: bulk_close)
next
  case (after_line b t e ts)
  then show ?case using quotes_distinct by (auto simp: line_close)
qed

lemma string_body_or_closed:
  "string_body q ts \<or> (\<exists>b rest. ts = b @ q # rest \<and> string_body q b \<and> (rest = [] \<or> hd rest \<noteq> q))"
proof (induction ts rule: induct_list012)
  case 1
  then show ?case by (simp add: body_end)
next
  case (2 x)
  show ?case
  proof (cases "x = q")
    case True
    have "[x] = [] @ q # []" using True by simp
    then show ?thesis using body_end by blast
  next
    case False
    then show ?thesis using body_token [OF _ body_end] by blast
  qed
next
  case (3 x y zs)
  show ?case
  proof (cases "x = q")
    case False
    from 3(2) show ?thesis
    proof
      assume "string_body q (y # zs)"
      then show ?thesis using False body_token by blast
    next
      assume "\<exists>b rest. y # zs = b @ q # rest \<and> string_body q b \<and> (rest = [] \<or> hd rest \<noteq> q)"
      then obtain b rest where "y # zs = b @ q # rest" "string_body q b" "rest = [] \<or> hd rest \<noteq> q"
        by blast
      then have "x # y # zs = (x # b) @ q # rest \<and> string_body q (x # b) \<and> (rest = [] \<or> hd rest \<noteq> q)"
        using False body_token by simp
      then show ?thesis by blast
    qed
  next
    case True
    show ?thesis
    proof (cases "y = q")
      case False
      have "x # y # zs = [] @ q # (y # zs) \<and> string_body q [] \<and> (y # zs = [] \<or> hd (y # zs) \<noteq> q)"
        using True False body_end by simp
      then show ?thesis by blast
    next
      case yq: True
      from 3(1) show ?thesis
      proof
        assume "string_body q zs"
        then show ?thesis using True yq body_doubled by blast
      next
        assume "\<exists>b rest. zs = b @ q # rest \<and> string_body q b \<and> (rest = [] \<or> hd rest \<noteq> q)"
        then obtain b rest where "zs = b @ q # rest" "string_body q b" "rest = [] \<or> hd rest \<noteq> q"
          by blast
        then have "x # y # zs = (q # q # b) @ q # rest \<and> string_body q (q # q # b)
            \<and> (rest = [] \<or> hd rest \<noteq> q)"
          using True yq body_doubled by simp
        then show ?thesis by blast
      qed
    qed
  qed
qed

lemma input_ends_total: "\<exists>e. input_ends e ts"
proof (induction ts rule: length_induct)
  case (1 ts)
  show ?case
  proof (cases ts)
    case Nil
    then show ?thesis using ends_outside by blast
  next
    case (Cons t ts')
    have IH: "\<exists>e. input_ends e rest" if "length rest \<le> length ts'" for rest
      using 1 that Cons by simp
    consider (quote) "t = dquote \<or> t = squote" | (bulk) "t = ''/*''" | (line) "t = ''//''"
      | (token) "t \<noteq> dquote" "t \<noteq> squote" "t \<noteq> ''/*''" "t \<noteq> ''//''"
      by blast
    then show ?thesis
    proof cases
      case quote
      from string_body_or_closed [of t ts'] show ?thesis
      proof
        assume "string_body t ts'"
        then show ?thesis using quote Cons ends_string by blast
      next
        assume "\<exists>b rest. ts' = b @ t # rest \<and> string_body t b \<and> (rest = [] \<or> hd rest \<noteq> t)"
        then obtain b rest where d: "ts' = b @ t # rest" "string_body t b" "rest = [] \<or> hd rest \<noteq> t"
          by blast
        then obtain e where "input_ends e rest" using IH [of rest] by auto
        then have "input_ends e (t # b @ t # rest)" using after_string quote d by blast
        then show ?thesis using Cons d by auto
      qed
    next
      case bulk
      show ?thesis
      proof (cases "''*/'' \<in> set ts'")
        case False
        then show ?thesis using bulk Cons ends_bulk by blast
      next
        case True
        then obtain b rest where d: "ts' = b @ ''*/'' # rest" "''*/'' \<notin> set b"
          using split_list_first by fastforce
        then obtain e where "input_ends e rest" using IH [of rest] by auto
        then have "input_ends e (''/*'' # b @ ''*/'' # rest)" using after_bulk d by blast
        then show ?thesis using Cons d bulk by auto
      qed
    next
      case line
      show ?thesis
      proof (cases "\<exists>x\<in>set ts'. x = newline \<or> x = crlf")
        case False
        then have "newline \<notin> set ts'" "crlf \<notin> set ts'" by auto
        then show ?thesis using line Cons ends_line by blast
      next
        case True
        from split_list_first_prop [OF True]
        obtain b x rest where d: "ts' = b @ x # rest" "x = newline \<or> x = crlf"
          "\<forall>y\<in>set b. \<not> (y = newline \<or> y = crlf)" by blast
        then have nb: "newline \<notin> set b" "crlf \<notin> set b" by auto
        obtain e where "input_ends e rest" using IH [of rest] d by auto
        then have "input_ends e (''//'' # b @ x # rest)" using after_line nb d(2) by blast
        then show ?thesis using Cons d line by auto
      qed
    next
      case token
      obtain e where "input_ends e ts'" using IH [of ts'] by auto
      then show ?thesis using token Cons after_token by blast
    qed
  qed
qed

text \<open>
  C7 (as amended). The merging step raises exactly when the input ends inside an
  unterminated string literal, single or double quoted: the last string literal of the
  input, with doubled quotes read as part of its body, has no closing quote. The
  error is then the parser error \<^verbatim>\<open>String is not closed\<close>. An input that ends
  inside an unterminated line comment or bulk comment does not raise: the text of the
  comment is returned as a last \<^verbatim>\<open>Comment\<close>.
\<close>

theorem parse_strings_and_comments_raises_iff:
  "((\<exists>e. parse_strings_and_comments ts = Inl e) = input_ends inside_string ts)
   \<and> ((\<exists>e. parse_strings_and_comments ts = Inl e)
      = (parse_strings_and_comments ts = Inl (SQFParserError ''String is not closed'')))
   \<and> (input_ends (inside_comment c) ts \<longrightarrow>
        (\<exists>r. parse_strings_and_comments ts = Inr (r @ [CommentLit c])))"
proof -
  obtain s acc d m where run: "psc_loop ts [] [] False mode_None = (s, acc, d, m)"
    by (cases "psc_loop ts [] [] False mode_None") auto
  obtain e0 where e0: "input_ends e0 ts" using input_ends_total by blast
  have ag: "agrees e (s, acc, d, m)" if "input_ends e ts" for e
    using input_ends_scan [OF that, of "[]" "[]"] run by simp
  have 1: "(\<exists>e. parse_strings_and_comments ts = Inl e) = input_ends inside_string ts"
  proof
    assume "\<exists>e. parse_strings_and_comments ts = Inl e"
    then have "m = string_double \<or> m = string_single"
      using run by (cases m) (auto simp: parse_strings_and_comments_def)
    with ag [OF e0] have "e0 = inside_string" by (cases e0) auto
    with e0 show "input_ends inside_string ts" by simp
  next
    assume "input_ends inside_string ts"
    from ag [OF this] show "\<exists>e. parse_strings_and_comments ts = Inl e"
      using run by (auto simp: parse_strings_and_comments_def)
  qed
  have 2: "(\<exists>e. parse_strings_and_comments ts = Inl e)
      = (parse_strings_and_comments ts = Inl (SQFParserError ''String is not closed''))"
    using run by (cases m) (auto simp: parse_strings_and_comments_def)
  have 3: "\<exists>r. parse_strings_and_comments ts = Inr (r @ [CommentLit c])"
    if "input_ends (inside_comment c) ts"
    using ag [OF that] run by (auto simp: parse_strings_and_comments_def)
  from 1 2 3 show ?thesis by blast
qed

theorem parse_strings_and_comments_raises_iff_witness:
  "input_ends inside_string [''a'', dquote, ''b'', dquote, dquote, ''c'']
   \<and> parse_strings_and_comments [''a'', dquote, ''b'', dquote, dquote, ''c'']
       = Inl (SQFParserError ''String is not closed'')
   \<and> input_ends (inside_comment ''//a'') [dquote, ''b'', dquote, ''//'', ''a'']
   \<and> (\<exists>r. parse_strings_and_comments [dquote, ''b'', dquote, ''//'', ''a'']
            = Inr (r @ [CommentLit ''//a'']))"
proof -
  have b: "string_body dquote [''b'', dquote, dquote, ''c'']"
    by (intro body_token body_doubled body_end) (simp_all add: dquote_def)
  have o: "input_ends inside_string (dquote # [''b'', dquote, dquote, ''c''])"
    by (rule ends_string [OF _ b]) simp
  have s: "input_ends inside_string [''a'', dquote, ''b'', dquote, dquote, ''c'']"
    by (rule after_token [OF _ _ _ _ o]) (simp_all add: dquote_def squote_def)
  have l: "input_ends (inside_comment (concat (''//'' # [''a''])))  (''//'' # [''a''])"
    by (rule ends_line) (simp_all add: newline_def crlf_def)
  have bb: "string_body dquote [''b'']"
    by (rule body_token [OF _ body_end]) (simp add: dquote_def)
  have "input_ends (inside_comment (concat (''//'' # [''a''])))
          (dquote # [''b''] @ dquote # ''//'' # [''a''])"
    by (rule after_string [OF _ bb _ l]) (simp_all add: dquote_def)
  then have c: "input_ends (inside_comment ''//a'') [dquote, ''b'', dquote, ''//'', ''a'']"
    by simp
  from parse_strings_and_comments_raises_iff
         [of "[''a'', dquote, ''b'', dquote, dquote, ''c'']"]
       parse_strings_and_comments_raises_iff
         [of "[dquote, ''b'', dquote, ''//'', ''a'']" "''//a''"]
       s c
  show ?thesis by blast
qed

text \<open>
  C7 as stated fails: the input \<^verbatim>\<open>/* a\<close> ends inside an unterminated bulk comment
  and the input \<^verbatim>\<open>// b\<close> inside a line comment, and neither raises.
\<close>

theorem unterminated_comment_counterexample:
  "input_ends (inside_comment ''/*a'') [''/*'', ''a'']
   \<and> end_mode [''/*'', ''a''] = comment_bulk
   \<and> parse_strings_and_comments [''/*'', ''a''] = Inr [CommentLit ''/*a'']
   \<and> input_ends (inside_comment ''//b'') [''//'', ''b'']
   \<and> end_mode [''//'', ''b''] = comment_line
   \<and> parse_strings_and_comments [''//'', ''b''] = Inr [CommentLit ''//b'']"
proof -
  have "input_ends (inside_comment (concat (''/*'' # [''a'']))) (''/*'' # [''a''])"
    by (rule ends_bulk) simp
  moreover have "input_ends (inside_comment (concat (''//'' # [''b'']))) (''//'' # [''b''])"
    by (rule ends_line) (simp_all add: newline_def crlf_def)
  ultimately show ?thesis
    by (simp add: parse_strings_and_comments_def end_mode_def dquote_def squote_def
        newline_def crlf_def)
qed

section \<open>Properties of the array analysis\<close>

lemma array_loop_Inr:
  "array_loop pe ts result part fcf = Inr (r', p', f') \<Longrightarrow>
     \<not> consecutive_commas ts \<and> \<not> (part = [] \<and> ts \<noteq> [] \<and> hd ts = Keyword '','')
     \<and> ((p' = []) = (if ts = [] then part = [] else last ts = Keyword '',''))
     \<and> (f' = (fcf \<or> Keyword '','' \<in> set ts))"
proof (induction ts arbitrary: result part fcf)
  case Nil
  then show ?case by auto
next
  case (Cons t ts)
  show ?case
  proof (cases "t = Keyword '',''")
    case True
    with Cons.prems have ne: "part \<noteq> []" by (auto split: if_splits)
    with True Cons.prems obtain s where s: "analyze_tokens pe part = Inr s"
      and rec: "array_loop pe ts (result @ [s]) [] True = Inr (r', p', f')"
      by (auto split: sum.splits)
    from Cons.IH [OF rec] True ne show ?thesis
      by (cases ts) auto
  next
    case False
    with Cons.prems have rec: "array_loop pe ts result (part @ [t]) fcf = Inr (r', p', f')"
      by simp
    from Cons.IH [OF rec] False show ?thesis
      by (cases ts) auto
  qed
qed

lemma array_loop_Inl:
  "\<forall>p. \<exists>s. pe p = Inr s \<Longrightarrow> array_loop pe ts result part fcf = Inl e \<Longrightarrow>
     e = SQFParserError ''Array cannot have an empty element''"
proof (induction ts arbitrary: result part fcf)
  case Nil
  then show ?case by simp
next
  case (Cons t ts)
  have ok: "\<exists>s. analyze_tokens pe p = Inr s" for p
  proof -
    obtain s where "pe (if p \<noteq> [] \<and> (last p = Keyword '';'' \<or> last p = Keyword '','')
                    then butlast p else p) = Inr s"
      using Cons.prems(1) by blast
    then show ?thesis
      by (cases s) (simp_all add: analyze_tokens_def Let_def)
  qed
  show ?case
  proof (cases "t = Keyword '',''")
    case True
    show ?thesis
    proof (cases "part = []")
      case True
      with \<open>t = Keyword '',''\<close> Cons.prems(2) show ?thesis by simp
    next
      case False
      obtain s where s: "analyze_tokens pe part = Inr s" using ok by blast
      with True False Cons.prems(2)
      have "array_loop pe ts (result @ [s]) [] True = Inl e" by simp
      with Cons.IH Cons.prems(1) show ?thesis by blast
    qed
  next
    case False
    with Cons.prems(2) have "array_loop pe ts result (part @ [t]) fcf = Inl e" by simp
    with Cons.IH Cons.prems(1) show ?thesis by blast
  qed
qed

lemma array_loop_Inr_empty:
  assumes "array_loop pe tokens result [] False = Inr (r', p', f')" and "element_without_tokens tokens"
  shows "p' = [] \<and> f'"
proof -
  from assms(2) have ne: "tokens \<noteq> []" by (simp add: element_without_tokens_def)
  note facts = array_loop_Inr [OF assms(1)]
  from facts ne assms(2) have l: "last tokens = Keyword '',''"
    by (simp add: element_without_tokens_def)
  with ne have "Keyword '','' \<in> set tokens" by (metis last_in_set)
  with facts ne l show ?thesis by simp
qed

lemma analyze_tokens_total:
  assumes "\<forall>p. \<exists>s. pe p = Inr s"
  shows "\<exists>s. analyze_tokens pe p = Inr s"
proof -
  obtain s where "pe (if p \<noteq> [] \<and> (last p = Keyword '';'' \<or> last p = Keyword '','')
                  then butlast p else p) = Inr s"
    using assms by blast
  then show ?thesis
    by (cases s) (simp_all add: analyze_tokens_def Let_def)
qed

lemma array_loop_Inl_comma:
  "\<forall>p. \<exists>s. pe p = Inr s \<Longrightarrow> array_loop pe ts result part fcf = Inl e \<Longrightarrow>
     consecutive_commas ts \<or> (part = [] \<and> ts \<noteq> [] \<and> hd ts = Keyword '','')"
proof (induction ts arbitrary: result part fcf)
  case Nil
  then show ?case by simp
next
  case (Cons t ts)
  show ?case
  proof (cases "t = Keyword '',''")
    case True
    show ?thesis
    proof (cases "part = []")
      case True
      with \<open>t = Keyword '',''\<close> show ?thesis by simp
    next
      case False
      obtain s where s: "analyze_tokens pe part = Inr s"
        using analyze_tokens_total [OF Cons.prems(1)] by blast
      with True False Cons.prems(2)
      have "array_loop pe ts (result @ [s]) [] True = Inl e" by simp
      from Cons.IH [OF Cons.prems(1) this] True show ?thesis
        by (cases ts) auto
    qed
  next
    case False
    with Cons.prems(2) have "array_loop pe ts result (part @ [t]) fcf = Inl e" by simp
    from Cons.IH [OF Cons.prems(1) this] False show ?thesis
      by (cases ts) auto
  qed
qed

lemma analyze_array_tokens_raises_only:
  assumes tot: "\<forall>p. \<exists>s. pe p = Inr s" and "analyze_array_tokens pe tokens = Inl e"
  shows "element_without_tokens tokens"
proof (cases "array_loop pe tokens [] [] False")
  case (Inl e')
  from array_loop_Inl_comma [OF tot Inl] show ?thesis
    by (cases tokens) (auto simp: element_without_tokens_def)
next
  case (Inr res)
  obtain r' p' f' where res: "res = (r', p', f')" by (cases res) auto
  note facts = array_loop_Inr [OF Inr [unfolded res]]
  obtain s where s: "analyze_tokens pe p' = Inr s"
    using analyze_tokens_total [OF tot] by blast
  from assms(2) Inr res s have "p' = [] \<and> f'"
    by (auto simp: analyze_array_tokens_def split: if_splits)
  with facts show ?thesis
    by (cases tokens) (auto simp: element_without_tokens_def split: if_splits)
qed

text \<open>
  C10 (as amended). In the contents of an array literal, a comma with no token before
  it since the start or the previous comma (a comma that is the first token, a comma
  right after another comma), and a comma that is the last token, make
  \<^verbatim>\<open>_analyze_array_tokens\<close> raise: the error is the parser error
  \<^verbatim>\<open>Array cannot have an empty element\<close> whenever the expression parser itself
  does not raise on the elements before it. With an expression parser that never
  raises, these are the only contents on which it raises: a whitespace token is the
  content of an element. The empty token sequence gives the empty array.
\<close>

theorem analyze_array_tokens_empty_element:
  "(element_without_tokens tokens \<longrightarrow>
      (\<exists>e. analyze_array_tokens parse_exp tokens = Inl e)
      \<and> ((\<forall>p. \<exists>s. parse_exp p = Inr s) \<longrightarrow>
           analyze_array_tokens parse_exp tokens
             = Inl (SQFParserError ''Array cannot have an empty element'')))
   \<and> ((\<forall>p. \<exists>s. parse_exp p = Inr s) \<longrightarrow>
        (\<exists>e. analyze_array_tokens parse_exp tokens = Inl e) = element_without_tokens tokens)
   \<and> analyze_array_tokens parse_exp [] = Inr []"
proof (intro conjI impI)
  show "analyze_array_tokens parse_exp [] = Inr []"
    by (simp add: analyze_array_tokens_def)
next
  assume ee: "element_without_tokens tokens"
  show fails: "\<exists>e. analyze_array_tokens parse_exp tokens = Inl e"
  proof (cases "array_loop parse_exp tokens [] [] False")
    case (Inl e)
    then show ?thesis by (simp add: analyze_array_tokens_def)
  next
    case (Inr res)
    obtain r' p' f' where res: "res = (r', p', f')" by (cases res) auto
    from array_loop_Inr_empty [OF Inr [unfolded res] ee]
    have "p' = []" and "f'" by simp_all
    with Inr res show ?thesis by (simp add: analyze_array_tokens_def)
  qed
  assume tot: "\<forall>p. \<exists>s. parse_exp p = Inr s"
  show "analyze_array_tokens parse_exp tokens
          = Inl (SQFParserError ''Array cannot have an empty element'')"
  proof (cases "array_loop parse_exp tokens [] [] False")
    case (Inl e)
    with array_loop_Inl [OF tot Inl] show ?thesis by (simp add: analyze_array_tokens_def)
  next
    case (Inr res)
    obtain r' p' f' where res: "res = (r', p', f')" by (cases res) auto
    from array_loop_Inr_empty [OF Inr [unfolded res] ee]
    have "p' = []" and "f'" by simp_all
    with Inr res show ?thesis by (simp add: analyze_array_tokens_def)
  qed
next
  assume tot: "\<forall>p. \<exists>s. parse_exp p = Inr s"
  show "(\<exists>e. analyze_array_tokens parse_exp tokens = Inl e) = element_without_tokens tokens"
  proof
    assume "\<exists>e. analyze_array_tokens parse_exp tokens = Inl e"
    then show "element_without_tokens tokens"
      using analyze_array_tokens_raises_only [OF tot] by blast
  next
    assume ee: "element_without_tokens tokens"
    show "\<exists>e. analyze_array_tokens parse_exp tokens = Inl e"
    proof (cases "array_loop parse_exp tokens [] [] False")
      case (Inl e)
      then show ?thesis by (simp add: analyze_array_tokens_def)
    next
      case (Inr res)
      obtain r' p' f' where res: "res = (r', p', f')" by (cases res) auto
      from array_loop_Inr_empty [OF Inr [unfolded res] ee]
      have "p' = []" and "f'" by simp_all
      with Inr res show ?thesis by (simp add: analyze_array_tokens_def)
    qed
  qed
qed

theorem analyze_array_tokens_empty_element_witness:
  "element_without_tokens [Variable ''a'', Keyword '','', Keyword '','', Variable ''b'']
   \<and> (\<forall>p. \<exists>s. parse_exp_flat p = Inr s)
   \<and> analyze_array_tokens parse_exp_flat
         [Variable ''a'', Keyword '','', Keyword '','', Variable ''b'']
       = Inl (SQFParserError ''Array cannot have an empty element'')
   \<and> element_without_tokens [Keyword '','', Variable ''b'']
   \<and> element_without_tokens [Variable ''b'', Keyword '','']
   \<and> analyze_array_tokens parse_exp_flat [Variable ''b'', Keyword '','']
       = Inl (SQFParserError ''Array cannot have an empty element'')
   \<and> \<not> element_without_tokens space_between_commas
   \<and> \<not> (\<exists>e. analyze_array_tokens parse_exp_flat space_between_commas = Inl e)
   \<and> analyze_array_tokens parse_exp_flat [] = Inr []"
proof -
  have tot: "\<forall>p. \<exists>s. parse_exp_flat p = Inr s"
    by (simp add: parse_exp_flat_def split: list.splits)
  have e1: "element_without_tokens [Variable ''a'', Keyword '','', Keyword '','', Variable ''b'']"
    and e2: "element_without_tokens [Keyword '','', Variable ''b'']"
    and e3: "element_without_tokens [Variable ''b'', Keyword '','']"
    and e4: "\<not> element_without_tokens space_between_commas"
    by (simp_all add: element_without_tokens_def space_between_commas_def)
  from analyze_array_tokens_empty_element
         [of "[Variable ''a'', Keyword '','', Keyword '','', Variable ''b'']" parse_exp_flat]
       analyze_array_tokens_empty_element [of "[Variable ''b'', Keyword '','']" parse_exp_flat]
       analyze_array_tokens_empty_element [of space_between_commas parse_exp_flat]
       tot e1 e2 e3 e4
  show ?thesis by blast
qed

text \<open>
  C10 as stated fails: in \<^verbatim>\<open>[1, ]\<close>, \<^verbatim>\<open>[ ,1]\<close> and \<^verbatim>\<open>[1, ,2]\<close> a comma delimits
  an element that holds only a space, and \<^verbatim>\<open>_analyze_array_tokens\<close> raises no
  error of its own: the space is handed to the expression parser as an element, and
  only an error of the expression parser can come out.
\<close>

theorem whitespace_element_counterexample:
  "analyze_array_tokens parse_exp_flat trailing_comma_and_space
     = Inr [Statement [Number 1] [] False, Statement [Space] [] False]
   \<and> analyze_array_tokens parse_exp_flat space_and_leading_comma
     = Inr [Statement [Space] [] False, Statement [Number 1] [] False]
   \<and> analyze_array_tokens parse_exp_flat space_between_commas
     = Inr [Statement [Number 1] [] False, Statement [Space] [] False,
            Statement [Number 2] [] False]
   \<and> parse_tokens 20 PREPROCESSORS_example parse_exp_flat
        (Keyword ''['' # trailing_comma_and_space @ [Keyword '']''])
     = Some (Inr (Statement
         [Statement
           [Array [Statement [Number 1] [] False, Statement [Space] [] False]]
           [] False]
         [] False))
   \<and> (\<forall>pe. analyze_array_tokens pe trailing_comma_and_space
          = (case analyze_tokens pe [Number 1] of
               Inl e \<Rightarrow> Inl e
             | Inr s \<Rightarrow>
                 (case analyze_tokens pe [Space] of
                    Inl e \<Rightarrow> Inl e
                  | Inr s' \<Rightarrow> Inr [s, s'])))"
proof (intro conjI allI)
  show "analyze_array_tokens parse_exp_flat trailing_comma_and_space
     = Inr [Statement [Number 1] [] False, Statement [Space] [] False]"
    by code_simp
  show "analyze_array_tokens parse_exp_flat space_and_leading_comma
     = Inr [Statement [Space] [] False, Statement [Number 1] [] False]"
    by code_simp
  show "analyze_array_tokens parse_exp_flat space_between_commas
     = Inr [Statement [Number 1] [] False, Statement [Space] [] False,
            Statement [Number 2] [] False]"
    by code_simp
  show "parse_tokens 20 PREPROCESSORS_example parse_exp_flat
        (Keyword ''['' # trailing_comma_and_space @ [Keyword '']''])
     = Some (Inr (Statement
         [Statement
           [Array [Statement [Number 1] [] False, Statement [Space] [] False]]
           [] False]
         [] False))"
    by code_simp
  show "analyze_array_tokens pe trailing_comma_and_space
          = (case analyze_tokens pe [Number 1] of
               Inl e \<Rightarrow> Inl e
             | Inr s \<Rightarrow>
                 (case analyze_tokens pe [Space] of
                    Inl e \<Rightarrow> Inl e
                  | Inr s' \<Rightarrow> Inr [s, s']))" for pe
    by (simp add: analyze_array_tokens_def trailing_comma_and_space_def split: sum.splits)
qed

section \<open>Rewrite rules for the block parser\<close>












subsection \<open>One iteration of the loop\<close>











subsection \<open>Brackets\<close>















section \<open>Properties of the block parser\<close>

subsection \<open>Statement separators\<close>

text \<open>
  C8 (as amended). In the loop of the block parser, at a token \<^verbatim>\<open>;\<close> or \<^verbatim>\<open>,\<close>
  that is not the name of a macro (and with neither character among the directive
  names): \<^verbatim>\<open>;\<close> ends the current token run into a completed statement when the
  block is parsed in mode \<^verbatim>\<open>single\<close> (the contents of an array) or when no
  directive is active; \<^verbatim>\<open>,\<close> ends it when the mode is \<^verbatim>\<open>both\<close> and no directive
  is active; in every other case the separator is appended to the current run as an
  ordinary token.
\<close>

theorem separator_step:
  assumes "0 \<le> i" and "i < int (length all_tokens)" and "all_tokens ! nat i = token"
    and "token = Keyword '';'' \<or> token = Keyword '',''"
    and "map_of defines (str_tok token) = None"
    and "'';'' \<notin> set PREPROCESSORS" and "'','' \<notin> set PREPROCESSORS"
  shows "parse_loop (Suc n) PREPROCESSORS an an_array all_tokens start stop lvls
           defines i tokens statements =
         (if (token = Keyword '';'' \<and> (stop = single \<or> list_all (\<lambda>x. lvls x = 0) PREPROCESSORS))
             \<or> (token = Keyword '','' \<and> stop = both \<and> list_all (\<lambda>x. lvls x = 0) PREPROCESSORS)
          then (case an (tokens @ [token]) of
                  Inl err \<Rightarrow> Some (Inl err)
                | Inr s \<Rightarrow> parse_loop n PREPROCESSORS an an_array all_tokens start stop
                            lvls defines (i + 1) [] (statements @ [s]))
          else parse_loop n PREPROCESSORS an an_array all_tokens start stop lvls
                 defines (i + 1) (tokens @ [token]) statements)"
proof -
  have get: "py_get all_tokens i = Inr token"
    using assms(1-3) by (simp add: py_get_def)
  have fd: "find_define defines all_tokens i token = Inr None"
    using assms(5) by (simp add: find_define_def)
  have sep: "is_separator PREPROCESSORS lvls stop token =
       ((token = Keyword '';'' \<and> (stop = single \<or> list_all (\<lambda>x. lvls x = 0) PREPROCESSORS))
        \<or> (token = Keyword '','' \<and> stop = both \<and> list_all (\<lambda>x. lvls x = 0) PREPROCESSORS))"
    using assms(4) by (cases stop) (auto simp: is_separator_def)
  have nd: "is_directive PREPROCESSORS token = False"
    "ends_directive PREPROCESSORS lvls token = False"
    "(type_of token \<noteq> T_EndOfFile) = True"
    using assms(4,6,7) by (auto simp: ends_directive_def)
  have nb: "(token = Keyword ''['') = False" "(token = Keyword ''('') = False"
    "(token = Keyword ''{'') = False" "(token = Keyword '']'') = False"
    "(token = Keyword '')'') = False" "(token = Keyword ''}'') = False"
    using assms(4) by auto
  show ?thesis
    apply (subst parse_loop.simps(2))
    apply (simp only: assms(2) get fd nd nb sep not_True_eq_False if_True if_False sum.case
        option.case not_False_eq_True)
    done
qed

theorem separator_step_witness:
  "(0::int) \<le> 1 \<and> (1::int) < int (length [Variable ''a'', Keyword '';''])
   \<and> [Variable ''a'', Keyword '';''] ! nat 1 = Keyword '';''
   \<and> map_of ([] :: defines_t) (str_tok (Keyword '';'')) = None
   \<and> '';'' \<notin> set PREPROCESSORS_example \<and> '','' \<notin> set PREPROCESSORS_example
   \<and> parse_loop (Suc 1) PREPROCESSORS_example (analyze_tokens parse_exp_flat)
        (analyze_array_tokens parse_exp_flat) [Variable ''a'', Keyword '';''] 0 both zero_lvls
        [] 1 [Variable ''a''] []
      = Some (Inr (Statement [Statement [Variable ''a''] '';'' False] [] False, 2, []))"
proof -
  have h: "(0::int) \<le> 1" "(1::int) < int (length [Variable ''a'', Keyword '';''])"
    "[Variable ''a'', Keyword '';''] ! nat 1 = Keyword '';''"
    "Keyword '';'' = Keyword '';'' \<or> Keyword '';'' = Keyword '',''"
    "map_of ([] :: defines_t) (str_tok (Keyword '';'')) = None"
    "'';'' \<notin> set PREPROCESSORS_example" "'','' \<notin> set PREPROCESSORS_example"
    by (simp_all add: PREPROCESSORS_example_def)
  have a: "analyze_tokens parse_exp_flat [Variable ''a'', Keyword '';'']
             = Inr (Statement [Variable ''a''] '';'' False)"
    by (simp add: analyze_tokens_def parse_exp_flat_def)
  have e: "parse_loop 1 PREPROCESSORS_example (analyze_tokens parse_exp_flat)
        (analyze_array_tokens parse_exp_flat) [Variable ''a'', Keyword '';''] 0 both zero_lvls
        [] (1 + 1) [] [Statement [Variable ''a''] '';'' False]
      = Some (Inr (Statement [Statement [Variable ''a''] '';'' False] [] False, 2, []))"
    by code_simp
  have z: "list_all (\<lambda>x. zero_lvls x = 0) PREPROCESSORS_example"
    by (simp add: zero_lvls_def PREPROCESSORS_example_def)
  from separator_step [OF h, of 1 "analyze_tokens parse_exp_flat"
      "analyze_array_tokens parse_exp_flat" 0 both zero_lvls "[Variable ''a'']" "[]"]
  have "parse_loop (Suc 1) PREPROCESSORS_example (analyze_tokens parse_exp_flat)
        (analyze_array_tokens parse_exp_flat) [Variable ''a'', Keyword '';''] 0 both zero_lvls
        [] 1 [Variable ''a''] []
      = Some (Inr (Statement [Statement [Variable ''a''] '';'' False] [] False, 2, []))"
    by (simp only: z a e append.simps simp_thms if_True sum.case)
  with h show ?thesis by simp
qed

text \<open>
  C8 as stated fails: inside an active directive a \<^verbatim>\<open>;\<close> does not end the token
  run. The line \<^verbatim>\<open>#define X a;b\<close> is one statement, the definition of \<^verbatim>\<open>X\<close>
  with the body \<^verbatim>\<open>a;b\<close>.
\<close>

theorem semicolon_in_directive_counterexample:
  "\<not> is_separator PREPROCESSORS_example (zero_lvls(''#define'' := 1)) both (Keyword '';'')
   \<and> parse_tokens 20 PREPROCESSORS_example parse_exp_flat semicolon_in_define =
       Some (Inr (Statement
         [Statement
           [DefineStatement
             [Keyword ''#define'', Space, Variable ''X'', Space,
              Variable ''a'', Keyword '';'', Variable ''b'']
             ''X'' [Variable ''a'', Keyword '';'', Variable ''b''] [] newline]
           [] False]
         [] False))"
  by code_simp

subsection \<open>Macro expansion\<close>





section \<open>Rewrite rules for the analyzer\<close>

lemma methods_0:
  "value_m (Analyzer_methods PP db 0) = (\<lambda>s token namespace_name. None)"
  "execute_token_m (Analyzer_methods PP db 0) = (\<lambda>s token. None)"
  "execute_single_m (Analyzer_methods PP db 0) = (\<lambda>s statement. None)"
  "execute_code_m (Analyzer_methods PP db 0) = (\<lambda>s code params extra_scope. None)"
  "execute_unexecuted_code_m (Analyzer_methods PP db 0) = (\<lambda>s code. None)"
  by simp_all

lemma methods_Suc:
  "value_m (Analyzer_methods PP db (Suc n)) = value_body db (Analyzer_methods PP db n)"
  "execute_token_m (Analyzer_methods PP db (Suc n))
     = execute_token_body (Analyzer_methods PP db n)"
  "execute_single_m (Analyzer_methods PP db (Suc n))
     = execute_single_body PP db (Analyzer_methods PP db n)"
  "execute_code_m (Analyzer_methods PP db (Suc n))
     = execute_code_body (Analyzer_methods PP db n)"
  "execute_unexecuted_code_m (Analyzer_methods PP db (Suc n))
     = execute_unexecuted_code_body (Analyzer_methods PP db n)"
  by (simp_all add: Let_def)

lemma methods_numeral:
  "value_m (Analyzer_methods PP db (numeral k))
     = value_body db (Analyzer_methods PP db (pred_numeral k))"
  "execute_token_m (Analyzer_methods PP db (numeral k))
     = execute_token_body (Analyzer_methods PP db (pred_numeral k))"
  "execute_single_m (Analyzer_methods PP db (numeral k))
     = execute_single_body PP db (Analyzer_methods PP db (pred_numeral k))"
  "execute_code_m (Analyzer_methods PP db (numeral k))
     = execute_code_body (Analyzer_methods PP db (pred_numeral k))"
  "execute_unexecuted_code_m (Analyzer_methods PP db (numeral k))
     = execute_unexecuted_code_body (Analyzer_methods PP db (pred_numeral k))"
  by (simp_all add: numeral_eq_Suc Let_def)

lemma bind_simps:
  "bind None f = None"
  "bind (Some (Inl e)) f = Some (Inl e)"
  "bind (Some (Inr x)) f = f x"
  "bind (lift (Inl e)) f = Some (Inl e)"
  "bind (lift (Inr x)) f = f x"
  "bind (return x) f = f x"
  by (simp_all add: bind_def lift_def return_def)

lemma bind_weak_cong: "m = m' \<Longrightarrow> bind m f = bind m' f"
  by simp

lemma bind_Some_Inr:
  "bind m f = Some (Inr y) \<Longrightarrow> \<exists>x. m = Some (Inr x) \<and> f x = Some (Inr y)"
  by (auto simp: bind_def split: option.splits sum.splits)

lemmas run_defs = analyze_def execute_code_def value_of_def execute_token_def
  execute_single_def execute_unexecuted_code_def methods_0 methods_numeral methods_Suc
  bind_simps return_def lift_def
  execute_code_body_def base_execute_code_def is_Statement_def record_executed_def
  new_Analyzer_def add_scope_def del_scope_def value_body_def execute_token_body_def
  execute_single_body_def base_tokens_def is_ParserType_def PREPROCESSORS_example_def
  private_branch_def current_scope_def write_scope_def read_scope_def get_scope_def
  scope_get_def exception_def track_code_def is_Code_def no_expressions_def end_of_file_def
  execute_unexecuted_code_body_def child_Analyzer_def assign_def assignment_lhs_def
  strip_ends_def py_slice_def py_bound_def dquote_def is_global_def Let_def
  general_case_def looks_like_define_def private_not_string_def dict_del_def
  assigned_to_outer_scope_def not_from_this_scope_def no_case_found_def finish_def
  is_Type_def is_InterpreterType_def isupper_def is_upper_char_def is_lower_char_def
  case_outcome_def extra_scope_of_def

section \<open>Properties of the analyzer\<close>

subsection \<open>Scopes and dictionaries\<close>

lemma map_of_dict_set_same: "map_of (dict_set k v d) k = Some v"
  by (induction d) auto

lemma map_of_dict_set_other: "k' \<noteq> k \<Longrightarrow> map_of (dict_set k v d) k' = map_of d k'"
  by (induction d) auto

lemma map_of_dict_del_same: "map_of (dict_del k d) k = None"
  by (induction d) (auto simp: dict_del_def)

lemma find_level_le: "find_level stack name \<le> length stack - 1"
  by (induction stack) auto

lemma find_level_less: "stack \<noteq> [] \<Longrightarrow> find_level stack name < length stack"
  using find_level_le [of stack name] by (cases stack) auto

lemma find_level_zero:
  "(find_level stack name = 0) = (\<not> list_ex (\<lambda>sc. map_of sc name \<noteq> None) (butlast stack))"
  by (induction stack) auto

lemma get_scope_valid:
  assumes "get_scope s name namespace_name = Inr scope"
  shows "\<exists>stack. map_of (namespaces s) (fst scope) = Some stack \<and> snd scope < length stack"
  using assms find_level_less [of "rev stack" name for stack]
  by (auto simp: get_scope_def Let_def split: option.splits if_splits)

lemma get_scope_level_zero:
  assumes "get_scope s name None = Inr scope"
  shows "(snd scope = 0) = (is_global name \<or> \<not> declared_in_nested_scope s name)"
proof -
  have "list_ex P (butlast (rev stack)) = list_ex P (tl stack)" for P and stack :: "scope list"
    by (cases stack) (auto simp: list_ex_iff butlast_append)
  then show ?thesis
    using assms
    by (auto simp: get_scope_def declared_in_nested_scope_def find_level_zero Let_def
             split: option.splits if_splits)
qed

lemma read_write_scope:
  assumes "map_of (namespaces s) (fst scope) = Some stack" and "snd scope < length stack"
  shows "read_scope (write_scope s scope name v) scope name = v"
  using assms
  by (simp add: read_scope_def write_scope_def map_of_dict_set_same scope_get_def)

lemma exceptions_write_scope: "exceptions (write_scope s scope name v) = exceptions s"
  by (simp add: write_scope_def split: option.splits)

subsection \<open>Assignment\<close>

text \<open>The effect of the tail of an assignment to a variable.\<close>

lemma assign_Variable:
  assumes "get_scope s name None = Inr scope"
  shows "\<exists>s'. assign s (Variable name) rhs_v ending
            = Inr (if ending = [] then rhs_v else Nothing, s')
         \<and> read_scope s' scope name
            = Instance (if type_of (read_scope s scope name) \<noteq> T_Nothing
                           \<and> type_of (read_scope s scope name) \<noteq> type_of rhs_v
                        then T_Nothing else type_of rhs_v)
         \<and> exceptions s'
            = exceptions s @ (if snd scope = 0 \<and> \<not> is_global name
                              then [assigned_to_outer_scope name] else [])"
proof -
  from get_scope_valid [OF assms] obtain stack
    where st: "map_of (namespaces s) (fst scope) = Some stack" "snd scope < length stack"
    by blast
  have rw: "read_scope (write_scope s scope name v) scope name = v" for v
    by (rule read_write_scope [OF st])
  have rx: "read_scope (exception e (write_scope s scope name v)) scope name = v" for v e
    using rw [of v] by (simp add: read_scope_def exception_def)
  show ?thesis
    using assms rw rx
    by (simp add: assign_def Let_def exceptions_write_scope exception_def)
qed

text \<open>An assignment statement, from the evaluation of its two sides.\<close>

lemma execute_single_assignment:
  assumes "is_Statement statement"
    and "base_tokens (tokens_of statement) = [l, Keyword ''='', r]"
    and "l \<noteq> Keyword ''#define''" and "l \<noteq> Keyword ''#include''" and "\<not> is_directive PP l"
    and "execute_token n PP db s l = Some (Inr (lhs0, s1))"
    and "assignment_lhs l lhs0 s1 = Inr (lhs, s2)"
    and "value_of n PP db s2 r None = Some (Inr (rhs_v, s3))"
  shows "execute_single (Suc n) PP db s statement
           = Some (assign s3 lhs rhs_v (ending_of statement))"
  using assms
  by (simp add: execute_single_def execute_token_def value_of_def methods_Suc
        execute_single_body_def Let_def bind_simps lift_def
      del: Analyzer_methods.simps)

text \<open>
  C4. For an assignment statement \<^verbatim>\<open>lhs = rhs\<close> whose left-hand side resolves to
  the variable \<open>name\<close> and whose right-hand side evaluates to \<open>rhs_v\<close> (in the
  state \<open>s3\<close>), with \<open>scope\<close> the scope that \<^verbatim>\<open>get_scope\<close> gives for the name:
  when the type recorded in that scope is neither \<^verbatim>\<open>Nothing\<close> nor the type of
  \<open>rhs_v\<close>, the analyzer records \<^verbatim>\<open>Nothing\<close>; otherwise it records the type
  of \<open>rhs_v\<close>. The only diagnostic the assignment can add is the scope warning:
  none is about the types.
\<close>

theorem assignment_records_type:
  assumes "is_Statement statement"
    and "base_tokens (tokens_of statement) = [l, Keyword ''='', r]"
    and "l \<noteq> Keyword ''#define''" and "l \<noteq> Keyword ''#include''" and "\<not> is_directive PP l"
    and "execute_token n PP db s l = Some (Inr (lhs0, s1))"
    and "assignment_lhs l lhs0 s1 = Inr (Variable name, s2)"
    and "value_of n PP db s2 r None = Some (Inr (rhs_v, s3))"
    and "get_scope s3 name None = Inr scope"
  shows "\<exists>out s'. execute_single (Suc n) PP db s statement = Some (Inr (out, s'))
         \<and> read_scope s' scope name
            = Instance (if type_of (read_scope s3 scope name) \<noteq> T_Nothing
                           \<and> type_of (read_scope s3 scope name) \<noteq> type_of rhs_v
                        then T_Nothing else type_of rhs_v)
         \<and> exceptions s'
            = exceptions s3 @ (if snd scope = 0 \<and> \<not> is_global name
                               then [assigned_to_outer_scope name] else [])"
  using execute_single_assignment [OF assms(1-8)]
        assign_Variable [OF assms(9), of rhs_v "ending_of statement"]
  by auto

theorem assignment_records_type_witness:
  "\<exists>out s'. execute_single (Suc 2) PREPROCESSORS_example no_expressions analyzer_with_number
               assign_string = Some (Inr (out, s'))
     \<and> read_scope analyzer_with_number (''missionnamespace'', 0) ''_a'' = Instance T_Number
     \<and> read_scope s' (''missionnamespace'', 0) ''_a'' = Nothing
     \<and> exceptions s' = [assigned_to_outer_scope ''_a'']"
proof -
  have h1: "is_Statement assign_string"
    and h2: "base_tokens (tokens_of assign_string)
               = [Variable ''_a'', Keyword ''='', String (dquote @ ''s'' @ dquote)]"
    and h3: "Variable ''_a'' \<noteq> Keyword ''#define''" "Variable ''_a'' \<noteq> Keyword ''#include''"
      "\<not> is_directive PREPROCESSORS_example (Variable ''_a'')"
    by (simp_all add: assign_string_def is_Statement_def base_tokens_def is_ParserType_def)
  have h6: "execute_token 2 PREPROCESSORS_example no_expressions analyzer_with_number
              (Variable ''_a'') = Some (Inr (Variable ''_a'', analyzer_with_number))"
    by (simp add: analyzer_with_number_def run_defs cong: bind_weak_cong
          del: Analyzer_methods.simps)
  have h7: "assignment_lhs (Variable ''_a'') (Variable ''_a'') analyzer_with_number
              = Inr (Variable ''_a'', analyzer_with_number)"
    by (simp add: assignment_lhs_def)
  have h8: "value_of 2 PREPROCESSORS_example no_expressions analyzer_with_number
              (String (dquote @ ''s'' @ dquote)) None
            = Some (Inr (String (dquote @ ''s'' @ dquote), analyzer_with_number))"
    by (simp add: analyzer_with_number_def run_defs cong: bind_weak_cong
          del: Analyzer_methods.simps)
  have h9: "get_scope analyzer_with_number ''_a'' None = Inr (''missionnamespace'', 0)"
    by (simp add: analyzer_with_number_def run_defs)
  have r: "read_scope analyzer_with_number (''missionnamespace'', 0) ''_a'' = Instance T_Number"
    and e: "exceptions analyzer_with_number = []"
    by (simp_all add: analyzer_with_number_def run_defs)
  from assignment_records_type [OF h1 h2 h3 h6 h7 h8 h9] r e
  show ?thesis by (simp add: is_global_def)
qed

subsection \<open>Scope warnings\<close>

text \<open>A name declared private in a nested scope is held by that scope.\<close>

lemma add_privates_declares:
  assumes "map_of (namespaces s) (current_namespace s) = Some stack"
    and "2 \<le> length stack"
    and "add_privates [String lit] s = Inr s'"
  shows "declared_in_nested_scope s' (strip_ends lit)"
proof -
  define name where "name = strip_ends lit"
  define top where "top = dict_set name Nothing (stack ! (length stack - 1))"
  have ne: "stack \<noteq> []" using assms(2) by auto
  have ns: "namespaces s'
              = dict_set (current_namespace s) (stack[length stack - 1 := top]) (namespaces s)"
    and cn: "current_namespace s' = current_namespace s"
    using assms(1,3) ne
    by (auto simp: Let_def current_scope_def write_scope_def exception_def name_def top_def
             split: if_splits)
  have "Suc (length stack - 2) = length stack - 1"
    using assms(2) by arith
  then have "tl (stack[length stack - 1 := top]) ! (length stack - 2) = top"
    using assms(2) by (simp add: nth_tl)
  moreover have "length stack - 2 < length (tl (stack[length stack - 1 := top]))"
    using assms(2) by simp
  ultimately have "top \<in> set (tl (stack[length stack - 1 := top]))"
    by (metis nth_mem)
  moreover have "map_of top name \<noteq> None"
    by (simp add: top_def map_of_dict_set_same)
  ultimately show ?thesis
    unfolding declared_in_nested_scope_def name_def [symmetric]
    by (auto simp: ns cn map_of_dict_set_same list_ex_iff)
qed

text \<open>
  C3 (as amended). For an assignment statement whose left-hand side resolves to the
  variable \<open>name\<close>, the assignment adds exactly one scope warning (\<^verbatim>\<open>Local
  variable ... assigned to an outer scope (not private)\<close>) when the name is local and
  no nested scope of the current namespace holds it, and it adds none otherwise: none
  for a global name, in a nested code block or not, and none for a local name held by
  a nested scope. A name declared with \<^verbatim>\<open>private\<close> inside a code block is held
  by the current scope.
\<close>

theorem assignment_scope_warning:
  assumes "is_Statement statement"
    and "base_tokens (tokens_of statement) = [l, Keyword ''='', r]"
    and "l \<noteq> Keyword ''#define''" and "l \<noteq> Keyword ''#include''" and "\<not> is_directive PP l"
    and "execute_token n PP db s l = Some (Inr (lhs0, s1))"
    and "assignment_lhs l lhs0 s1 = Inr (Variable name, s2)"
    and "value_of n PP db s2 r None = Some (Inr (rhs_v, s3))"
    and "get_scope s3 name None = Inr scope"
  shows "(\<exists>out s'. execute_single (Suc n) PP db s statement = Some (Inr (out, s'))
           \<and> exceptions s'
              = exceptions s3 @ (if \<not> is_global name \<and> \<not> declared_in_nested_scope s3 name
                                 then [assigned_to_outer_scope name] else []))
       \<and> (\<forall>s0 stack lit s0'.
             map_of (namespaces s0) (current_namespace s0) = Some stack \<and> 2 \<le> length stack
               \<and> add_privates [String lit] s0 = Inr s0'
             \<longrightarrow> declared_in_nested_scope s0' (strip_ends lit))"
proof -
  have "(snd scope = 0 \<and> \<not> is_global name)
          = (\<not> is_global name \<and> \<not> declared_in_nested_scope s3 name)"
    using get_scope_level_zero [OF assms(9)] by auto
  then show ?thesis
    using execute_single_assignment [OF assms(1-8)]
          assign_Variable [OF assms(9), of rhs_v "ending_of statement"]
          add_privates_declares
    by auto
qed

theorem assignment_scope_warning_witness:
  "(\<exists>out s'. execute_single (Suc 2) PREPROCESSORS_example no_expressions analyzer_with_private
                assign_one = Some (Inr (out, s'))
      \<and> declared_in_nested_scope analyzer_with_private ''_a'' \<and> exceptions s' = [])
   \<and> (\<exists>out s'. execute_single (Suc 2) PREPROCESSORS_example no_expressions
                   analyzer_with_number assign_string = Some (Inr (out, s'))
      \<and> \<not> declared_in_nested_scope analyzer_with_number ''_a''
      \<and> exceptions s' = [assigned_to_outer_scope ''_a''])"
proof -
  have a1: "is_Statement assign_one"
    and a2: "base_tokens (tokens_of assign_one) = [Variable ''_a'', Keyword ''='', Number 1]"
    and h3: "Variable ''_a'' \<noteq> Keyword ''#define''" "Variable ''_a'' \<noteq> Keyword ''#include''"
      "\<not> is_directive PREPROCESSORS_example (Variable ''_a'')"
    by (simp_all add: assign_one_def is_Statement_def base_tokens_def is_ParserType_def)
  have a6: "execute_token 2 PREPROCESSORS_example no_expressions analyzer_with_private
              (Variable ''_a'') = Some (Inr (Variable ''_a'', analyzer_with_private))"
    by (simp add: analyzer_with_private_def run_defs cong: bind_weak_cong
          del: Analyzer_methods.simps)
  have a7: "assignment_lhs (Variable ''_a'') (Variable ''_a'') analyzer_with_private
              = Inr (Variable ''_a'', analyzer_with_private)"
    by (simp add: assignment_lhs_def)
  have a8: "value_of 2 PREPROCESSORS_example no_expressions analyzer_with_private (Number 1) None
            = Some (Inr (Number 1, analyzer_with_private))"
    by (simp add: analyzer_with_private_def run_defs cong: bind_weak_cong
          del: Analyzer_methods.simps)
  have a9: "get_scope analyzer_with_private ''_a'' None = Inr (''missionnamespace'', 1)"
    by (simp add: analyzer_with_private_def run_defs)
  have ad: "declared_in_nested_scope analyzer_with_private ''_a''"
    and ae: "exceptions analyzer_with_private = []"
    by (simp_all add: analyzer_with_private_def declared_in_nested_scope_def new_Analyzer_def)
  have b1: "is_Statement assign_string"
    and b2: "base_tokens (tokens_of assign_string)
               = [Variable ''_a'', Keyword ''='', String (dquote @ ''s'' @ dquote)]"
    by (simp_all add: assign_string_def is_Statement_def base_tokens_def is_ParserType_def)
  have b6: "execute_token 2 PREPROCESSORS_example no_expressions analyzer_with_number
              (Variable ''_a'') = Some (Inr (Variable ''_a'', analyzer_with_number))"
    by (simp add: analyzer_with_number_def run_defs cong: bind_weak_cong
          del: Analyzer_methods.simps)
  have b7: "assignment_lhs (Variable ''_a'') (Variable ''_a'') analyzer_with_number
              = Inr (Variable ''_a'', analyzer_with_number)"
    by (simp add: assignment_lhs_def)
  have b8: "value_of 2 PREPROCESSORS_example no_expressions analyzer_with_number
              (String (dquote @ ''s'' @ dquote)) None
            = Some (Inr (String (dquote @ ''s'' @ dquote), analyzer_with_number))"
    by (simp add: analyzer_with_number_def run_defs cong: bind_weak_cong
          del: Analyzer_methods.simps)
  have b9: "get_scope analyzer_with_number ''_a'' None = Inr (''missionnamespace'', 0)"
    by (simp add: analyzer_with_number_def run_defs)
  have bd: "\<not> declared_in_nested_scope analyzer_with_number ''_a''"
    and be: "exceptions analyzer_with_number = []"
    by (simp_all add: analyzer_with_number_def declared_in_nested_scope_def run_defs)
  from assignment_scope_warning [OF a1 a2 h3 a6 a7 a8 a9]
       assignment_scope_warning [OF b1 b2 h3 b6 b7 b8 b9] ad ae bd be
  show ?thesis by (simp add: is_global_def)
qed

text \<open>
  C3 as stated fails: in the script \<^verbatim>\<open>F = {X = 1;};\<close> the assignment to the
  global name \<^verbatim>\<open>X\<close> is analyzed inside a code block, and the whole analysis gives
  no diagnostic.
\<close>

theorem global_assignment_in_code_counterexample:
  "diagnostics_of
     (analyze 20 PREPROCESSORS_example no_expressions global_assigned_in_code new_Analyzer)
   = Some (Inr [])"
  by (simp add: global_assigned_in_code_def code_global_def diagnostics_of_def run_defs
        str_int_def digit_char_def
      cong: bind_weak_cong del: Analyzer_methods.simps)

subsection \<open>Pending \<^verbatim>\<open>private\<close> declarations\<close>


text \<open>The execution of a file ends with the reports of the end of file.\<close>

lemma execute_code_File:
  assumes "execute_code (Suc n) PP db s (File ts) params extra_scope = Some (Inr (out, s'))"
  shows "\<exists>s1 s2. base_execute_code (Analyzer_methods PP db n) (record_executed (File ts) s)
                    (File ts) params extra_scope = Some (Inr (out, s1))
           \<and> unexecuted_loop (Analyzer_methods PP db n) s1 (map snd (unexecuted_codes s1))
               = Some (Inr s2)
           \<and> s' = end_of_file s2"
  using assms
  unfolding execute_code_def methods_Suc execute_code_body_def
  by (auto dest!: bind_Some_Inr simp: return_def)

lemma exceptions_end_of_file:
  "exceptions (end_of_file s)
     = exceptions s @ replicate (length (privates s)) private_not_string
         @ map helper_not_evaluated (unevaluated_interpreter_tokens s)"
  by (simp add: end_of_file_def map_replicate_const)



subsection \<open>Unexecuted and executed codes\<close>

lemma map_of_append_new: "map_of d k = None \<Longrightarrow> map_of (d @ [(k, v)]) k = Some v"
  by (induction d) auto

lemma track_code_tracked:
  "is_Code result \<Longrightarrow> map_of (unexecuted_codes (track_code result s)) (str_tok result) \<noteq> None"
  by (auto simp: track_code_def map_add_def)

lemma value_of_tracks:
  assumes "value_of (Suc n) PP db s token namespace_name = Some (Inr (result, s'))"
  shows "\<exists>s1. s' = track_code result s1"
  using assms
  unfolding value_of_def methods_Suc value_body_def
  by (auto dest!: bind_Some_Inr simp: return_def)

lemma execute_code_starts:
  assumes "execute_code (Suc n) PP db s code params extra_scope = Some (Inr (out, s'))"
  shows "\<exists>o1 s1. base_execute_code (Analyzer_methods PP db n) (record_executed code s) code
                    params extra_scope = Some (Inr (o1, s1))"
  using assms
  unfolding execute_code_def methods_Suc execute_code_body_def
  by (auto dest!: bind_Some_Inr)

text \<open>
  C9 (as amended). A code value that \<^verbatim>\<open>value\<close> returns is a key of the unexecuted
  set afterwards, under its text: it is appended when the key is not there and nothing
  changes when it is, and the executed set is neither read nor changed.
  \<^verbatim>\<open>execute_code\<close> first removes the key of the code from the unexecuted set and
  records the code as executed, and runs the body from that state. (Nothing in
  \<^verbatim>\<open>value\<close> looks at the executed set, so a code that is produced again after its
  execution is tracked in both.)
\<close>

theorem code_bookkeeping:
  "(value_of (Suc n) PP db s token namespace_name = Some (Inr (result, s')) \<and> is_Code result
      \<longrightarrow> map_of (unexecuted_codes s') (str_tok result) \<noteq> None)
   \<and> (is_Code result \<and> map_of (unexecuted_codes s) (str_tok result) = None
      \<longrightarrow> unexecuted_codes (track_code result s)
            = unexecuted_codes s @ [(str_tok result, result)])
   \<and> (map_of (unexecuted_codes s) (str_tok result) \<noteq> None \<longrightarrow> track_code result s = s)
   \<and> executed_codes (track_code result s) = executed_codes s
   \<and> map_of (unexecuted_codes (record_executed code s)) (str_tok code) = None
   \<and> map_of (executed_codes (record_executed code s)) (str_tok code) = Some code
   \<and> (execute_code (Suc n) PP db s code params extra_scope = Some (Inr (out, s''))
      \<longrightarrow> (\<exists>o1 s1. base_execute_code (Analyzer_methods PP db n) (record_executed code s) code
                      params extra_scope = Some (Inr (o1, s1))))"
proof (intro conjI impI)
  show "map_of (unexecuted_codes s') (str_tok result) \<noteq> None"
    if "value_of (Suc n) PP db s token namespace_name = Some (Inr (result, s')) \<and> is_Code result"
    using that value_of_tracks track_code_tracked by blast
  show "unexecuted_codes (track_code result s) = unexecuted_codes s @ [(str_tok result, result)]"
    if "is_Code result \<and> map_of (unexecuted_codes s) (str_tok result) = None"
    using that by (simp add: track_code_def)
  show "track_code result s = s" if "map_of (unexecuted_codes s) (str_tok result) \<noteq> None"
    using that by (simp add: track_code_def)
  show "executed_codes (track_code result s) = executed_codes s"
    by (simp add: track_code_def)
  show "map_of (unexecuted_codes (record_executed code s)) (str_tok code) = None"
    by (simp add: record_executed_def map_of_dict_del_same)
  show "map_of (executed_codes (record_executed code s)) (str_tok code) = Some code"
    by (simp add: record_executed_def map_of_dict_set_same)
  show "\<exists>o1 s1. base_execute_code (Analyzer_methods PP db n) (record_executed code s) code
                  params extra_scope = Some (Inr (o1, s1))"
    if "execute_code (Suc n) PP db s code params extra_scope = Some (Inr (out, s''))"
    using execute_code_starts [OF that] .
qed

theorem code_bookkeeping_witness:
  "value_of (Suc 0) PREPROCESSORS_example no_expressions new_Analyzer code_global None
     = Some (Inr (code_global, track_code code_global new_Analyzer))
   \<and> is_Code code_global
   \<and> map_of (unexecuted_codes new_Analyzer) (str_tok code_global) = None
   \<and> map_of (unexecuted_codes (track_code code_global new_Analyzer)) (str_tok code_global)
       \<noteq> None
   \<and> unexecuted_codes (track_code code_global new_Analyzer) = [(''{X = 1;}'', code_global)]
   \<and> track_code code_global (track_code code_global new_Analyzer)
       = track_code code_global new_Analyzer"
proof -
  have v: "value_of (Suc 0) PREPROCESSORS_example no_expressions new_Analyzer code_global None
             = Some (Inr (code_global, track_code code_global new_Analyzer))"
    by (simp add: value_of_def methods_Suc methods_0 value_body_def code_global_def
          no_expressions_def bind_simps return_def
        del: Analyzer_methods.simps)
  have c: "is_Code code_global"
    and a: "map_of (unexecuted_codes new_Analyzer) (str_tok code_global) = None"
    and k: "str_tok code_global = ''{X = 1;}''"
    by (simp_all add: is_Code_def code_global_def new_Analyzer_def str_int_def digit_char_def)
  note i1 = code_bookkeeping
    [where n = 0 and PP = PREPROCESSORS_example and db = no_expressions and s = new_Analyzer
       and token = code_global and namespace_name = None and result = code_global
       and s' = "track_code code_global new_Analyzer"]
  note i2 = code_bookkeeping
    [where s = "track_code code_global new_Analyzer" and result = code_global]
  from v c have vc: "value_of (Suc 0) PREPROCESSORS_example no_expressions new_Analyzer
      code_global None = Some (Inr (code_global, track_code code_global new_Analyzer))
      \<and> is_Code code_global" by simp
  from c a have ca: "is_Code code_global
      \<and> map_of (unexecuted_codes new_Analyzer) (str_tok code_global) = None" by simp
  note t1 = i1 [THEN conjunct1, THEN mp, OF vc]
  note t2 = i1 [THEN conjunct2, THEN conjunct1, THEN mp, OF ca]
  note t3 = i2 [THEN conjunct2, THEN conjunct2, THEN conjunct1, THEN mp, OF t1]
  from v c a t1 t2 t3 k show ?thesis
    by (simp add: new_Analyzer_def)
qed

text \<open>
  C9 as stated fails: in the script \<^verbatim>\<open>call {X = 1;}; F = {X = 1;};\<close> the code is
  executed by the call and then produced again as a value, and at the end of the
  analysis its text is a key of the unexecuted set and of the executed set.
\<close>

theorem code_tracked_twice_counterexample:
  "tracked_twice code_global
     (analyze 20 PREPROCESSORS_example call_database call_then_assign new_Analyzer)"
  by (simp add: call_then_assign_def code_global_def call_database_def call_expression_def
        tracked_twice_def run_defs str_int_def digit_char_def
      cong: bind_weak_cong del: Analyzer_methods.simps)

subsection \<open>Deferred execution\<close>

lemma execute_unexecuted_code_frame:
  assumes "execute_unexecuted_code_m (Analyzer_methods PP db (Suc n)) s code = Some (Inr s')"
  shows "\<exists>out child.
           execute_code n PP db (child_Analyzer s) (File (tokens_of code)) None None
             = Some (Inr (out, child))
           \<and> s' = s\<lparr>exceptions := exceptions s @ exceptions child\<rparr>"
  using assms
  unfolding methods_Suc execute_unexecuted_code_body_def execute_code_def
  by (auto dest!: bind_Some_Inr simp: return_def lift_def split: if_splits)

lemma unexecuted_loop_frame:
  "unexecuted_loop (Analyzer_methods PP db (Suc n)) s codes = Some (Inr s') \<Longrightarrow>
     \<exists>children.
       list_all2 (\<lambda>code child. \<exists>out.
            execute_code n PP db (child_Analyzer s) (File (tokens_of code)) None None
              = Some (Inr (out, child))) codes children
       \<and> s' = s\<lparr>exceptions := exceptions s @ concat (map exceptions children)\<rparr>"
proof (induction codes arbitrary: s)
  case Nil
  then have "s' = s" by (simp add: return_def)
  then show ?case by simp
next
  case (Cons code rest)
  from Cons.prems obtain s1 where
    first: "execute_unexecuted_code_m (Analyzer_methods PP db (Suc n)) s code = Some (Inr s1)"
    and rest: "unexecuted_loop (Analyzer_methods PP db (Suc n)) s1 rest = Some (Inr s')"
    by (auto dest!: bind_Some_Inr simp del: Analyzer_methods.simps)
  from execute_unexecuted_code_frame [OF first] obtain out child where
    child: "execute_code n PP db (child_Analyzer s) (File (tokens_of code)) None None
              = Some (Inr (out, child))"
    and s1: "s1 = s\<lparr>exceptions := exceptions s @ exceptions child\<rparr>"
    by blast
  have same: "child_Analyzer s1 = child_Analyzer s"
    by (simp add: s1 child_Analyzer_def)
  from Cons.IH [OF rest] obtain children where
    ch: "list_all2 (\<lambda>code child. \<exists>out.
            execute_code n PP db (child_Analyzer s) (File (tokens_of code)) None None
              = Some (Inr (out, child))) rest children"
    and s': "s' = s1\<lparr>exceptions := exceptions s1 @ concat (map exceptions children)\<rparr>"
    unfolding same by blast
  have "list_all2 (\<lambda>code child. \<exists>out.
            execute_code n PP db (child_Analyzer s) (File (tokens_of code)) None None
              = Some (Inr (out, child))) (code # rest) (child # children)"
    using child ch by auto
  moreover have "s' = s\<lparr>exceptions := exceptions s @ concat (map exceptions (child # children))\<rparr>"
    by (simp add: s' s1)
  ultimately show ?case by blast
qed

text \<open>
  C1. When the execution of a file ends, with \<open>s1\<close> the analyzer after the
  statements of the file: each code still in the unexecuted set is executed, in the
  order of the set, by a new analyzer whose namespaces are those of \<open>s1\<close> (a deep
  copy); \<open>children\<close> are these analyzers after their runs. The namespaces of the
  parent after the file are those of \<open>s1\<close>: no binding of a deferred code reaches
  them. The diagnostics of the parent are those of \<open>s1\<close>, then the diagnostics of
  each child in order, then the reports of the end of the file.
\<close>

theorem deferred_execution_isolated:
  assumes "execute_code (Suc (Suc n)) PP db s (File ts) params extra_scope
             = Some (Inr (out, s'))"
  shows "\<exists>s1 children.
           base_execute_code (Analyzer_methods PP db (Suc n)) (record_executed (File ts) s)
               (File ts) params extra_scope = Some (Inr (out, s1))
           \<and> list_all2 (\<lambda>code child. \<exists>result.
                 execute_code n PP db (child_Analyzer s1) (File (tokens_of code)) None None
                   = Some (Inr (result, child))) (map snd (unexecuted_codes s1)) children
           \<and> namespaces (child_Analyzer s1) = namespaces s1
           \<and> namespaces s' = namespaces s1
           \<and> exceptions s'
              = exceptions s1 @ concat (map exceptions children)
                  @ replicate (length (privates s1)) private_not_string
                  @ map helper_not_evaluated (unevaluated_interpreter_tokens s1)"
proof -
  from execute_code_File [OF assms] obtain s1 s2 where
    main: "base_execute_code (Analyzer_methods PP db (Suc n)) (record_executed (File ts) s)
             (File ts) params extra_scope = Some (Inr (out, s1))"
    and loop: "unexecuted_loop (Analyzer_methods PP db (Suc n)) s1
                 (map snd (unexecuted_codes s1)) = Some (Inr s2)"
    and s': "s' = end_of_file s2"
    by blast
  from unexecuted_loop_frame [OF loop] obtain children where
    ch: "list_all2 (\<lambda>code child. \<exists>result.
            execute_code n PP db (child_Analyzer s1) (File (tokens_of code)) None None
              = Some (Inr (result, child))) (map snd (unexecuted_codes s1)) children"
    and s2: "s2 = s1\<lparr>exceptions := exceptions s1 @ concat (map exceptions children)\<rparr>"
    by blast
  have "namespaces s' = namespaces s1"
    by (simp add: s' s2 end_of_file_def)
  moreover have "exceptions s'
       = exceptions s1 @ concat (map exceptions children)
           @ replicate (length (privates s1)) private_not_string
           @ map helper_not_evaluated (unevaluated_interpreter_tokens s1)"
    by (simp add: s' s2 exceptions_end_of_file)
  moreover have "namespaces (child_Analyzer s1) = namespaces s1"
    by (simp add: child_Analyzer_def)
  ultimately show ?thesis using main ch by blast
qed

theorem deferred_execution_isolated_witness:
  "execute_code (Suc (Suc 18)) PREPROCESSORS_example no_expressions new_Analyzer
       (File (tokens_of code_never_called)) None (Some [(''_this'', Nothing)])
     = Some (Inr (Nothing, code_never_called_final))
   \<and> (\<exists>s1 children.
        base_execute_code (Analyzer_methods PREPROCESSORS_example no_expressions (Suc 18))
            (record_executed (File (tokens_of code_never_called)) new_Analyzer)
            (File (tokens_of code_never_called)) None (Some [(''_this'', Nothing)])
          = Some (Inr (Nothing, s1))
        \<and> list_all2 (\<lambda>code child. \<exists>result.
              execute_code 18 PREPROCESSORS_example no_expressions (child_Analyzer s1)
                  (File (tokens_of code)) None None
                = Some (Inr (result, child))) (map snd (unexecuted_codes s1)) children
        \<and> namespaces (child_Analyzer s1) = namespaces s1
        \<and> namespaces code_never_called_final = namespaces s1
        \<and> exceptions code_never_called_final
           = exceptions s1 @ concat (map exceptions children)
               @ replicate (length (privates s1)) private_not_string
               @ map helper_not_evaluated (unevaluated_interpreter_tokens s1))
   \<and> map_of (hd (the (map_of (namespaces code_never_called_final) ''missionnamespace'')))
        ''_x'' = None"
proof -
  have run: "execute_code (Suc (Suc 18)) PREPROCESSORS_example no_expressions new_Analyzer
       (File (tokens_of code_never_called)) None (Some [(''_this'', Nothing)])
     = Some (Inr (Nothing, code_never_called_final))"
    by (simp add: code_never_called_def code_x_def code_never_called_final_def run_defs
          str_int_def digit_char_def
        cong: bind_weak_cong del: Analyzer_methods.simps)
  have nx: "map_of (hd (the (map_of (namespaces code_never_called_final)
              ''missionnamespace''))) ''_x'' = None"
    by (simp add: code_never_called_final_def)
  from deferred_execution_isolated [OF run] run nx show ?thesis by blast
qed

end
